theory Spec2Isabelle
  imports Main "HOL-Library.Sublist"
begin

section \<open>Python values\<close>

text \<open>
  An instance of Python's \<open>Exception\<close>.  The code only ever observes \<open>str(e)\<close>,
  so an exception is represented by that text; the text may be empty, as it is for an
  exception constructed without arguments.  A computation that may raise has a result
  of type \<open>py_exception + 'a\<close>, with \<open>Inl\<close> for the raised exception.  Signals that
  are not instances of \<open>Exception\<close> (keyboard interrupt, task cancellation) and the
  progress lines printed to the console are outside the model.
\<close>

datatype py_exception = PyException string

fun str_exc :: "py_exception \<Rightarrow> string" where
  "str_exc (PyException msg) = msg"

text \<open>
  \<open>try: body except Exception as e: handler(e)\<close>: the value of the body, or what
  the handler does with the exception the body raised.
\<close>

definition try_except :: "('e + 'a) \<Rightarrow> ('e \<Rightarrow> 'e + 'a) \<Rightarrow> 'e + 'a" where
  "try_except body handler = (case body of Inl e \<Rightarrow> handler e | Inr v \<Rightarrow> Inr v)"

text \<open>
  Truth value of an optional string in a condition such as \<open>if state.get("error")\<close>:
  \<open>None\<close> and the empty string are both false.
\<close>

definition truthy :: "string option \<Rightarrow> bool" where
  "truthy v = (case v of None \<Rightarrow> False | Some s \<Rightarrow> s \<noteq> [])"

text \<open>\<open>v or d\<close> inside an f-string, for an optional string and for an optional integer.\<close>

definition str_or :: "string option \<Rightarrow> string \<Rightarrow> string" where
  "str_or v d = (case v of None \<Rightarrow> d | Some s \<Rightarrow> if s = [] then d else s)"

definition digit_char :: "nat \<Rightarrow> char" where
  "digit_char n = char_of (48 + n)"

function str_nat :: "nat \<Rightarrow> string" where
  "str_nat n = (if n < 10 then [digit_char n] else str_nat (n div 10) @ [digit_char (n mod 10)])"
  by pat_completeness auto
termination
  by (relation "measure id") auto

definition str_int :: "int \<Rightarrow> string" where
  "str_int i = (if i < 0 then CHR ''-'' # str_nat (nat (- i)) else str_nat (nat i))"

definition int_or :: "int option \<Rightarrow> string \<Rightarrow> string" where
  "int_or v d = (case v of None \<Rightarrow> d | Some i \<Rightarrow> if i = 0 then d else str_int i)"

text \<open>An optional string formatted inside an f-string, and \<open>repr\<close> of a plain key.\<close>

definition format_opt :: "string option \<Rightarrow> string" where
  "format_opt v = (case v of None \<Rightarrow> ''None'' | Some s \<Rightarrow> s)"

definition repr_str :: "string \<Rightarrow> string" where
  "repr_str s = [CHR 0x27] @ s @ [CHR 0x27]"

text \<open>\<open>sep.join(xs)\<close>.\<close>

fun py_join :: "string \<Rightarrow> string list \<Rightarrow> string" where
  "py_join sep [] = []"
| "py_join sep [x] = x"
| "py_join sep (x # y # ys) = x @ sep @ py_join sep (y # ys)"

section \<open>Awaiting concurrent calls (asyncio.gather)\<close>

text \<open>
  The calls handed to \<open>asyncio.gather\<close> run concurrently and finish in an order the
  caller does not control.  Here the outcome of the call in position \<open>i\<close> is
  \<open>outcomes ! i\<close> and \<open>finish i\<close> is the moment it finishes; the calls are handled
  in the order of their finishing moments, each result is stored under the position of
  its call, and the gathered list is read from the store by position.
\<close>

definition arrivals :: "'r list \<Rightarrow> (nat \<Rightarrow> nat) \<Rightarrow> (nat \<times> 'r) list" where
  "arrivals outcomes finish =
     map (\<lambda>i. (i, outcomes ! i)) (sort_key finish [0..<length outcomes])"

definition by_position :: "nat \<Rightarrow> (nat \<rightharpoonup> 'r) \<Rightarrow> 'r list" where
  "by_position n store = List.map_filter store [0..<n]"

text \<open>
  \<open>gather(..., return_exceptions=True)\<close>: an exception raised by a call is an
  outcome like any other and takes the position of its call.
\<close>

definition gather_return_exceptions :: "'r list \<Rightarrow> (nat \<Rightarrow> nat) \<Rightarrow> 'r list" where
  "gather_return_exceptions outcomes finish =
     by_position (length outcomes)
       (fold (\<lambda>(i, r) store. store(i \<mapsto> r)) (arrivals outcomes finish) Map.empty)"

text \<open>
  \<open>gather(...)\<close> without that flag: the first exception to arrive is raised to the
  awaiting caller; otherwise the values are returned by position.
\<close>

fun collect :: "(nat \<times> ('e + 'a)) list \<Rightarrow> (nat \<rightharpoonup> 'a) \<Rightarrow> 'e + (nat \<rightharpoonup> 'a)" where
  "collect [] store = Inr store"
| "collect ((i, Inl e) # rest) store = Inl e"
| "collect ((i, Inr v) # rest) store = collect rest (store(i \<mapsto> v))"

definition gather :: "('e + 'a) list \<Rightarrow> (nat \<Rightarrow> nat) \<Rightarrow> 'e + 'a list" where
  "gather outcomes finish =
     (case collect (arrivals outcomes finish) Map.empty of
        Inl e \<Rightarrow> Inl e
      | Inr store \<Rightarrow> Inr (by_position (length outcomes) store))"


section \<open>String literals of the source\<close>

text \<open>
  Python strings are sequences of characters and the code only concatenates, joins and
  tests them for emptiness, so a text is represented by its UTF-8 bytes.  The Korean
  literals are written out byte by byte.
\<close>

text \<open>The period name of line 227 (UTF-8 bytes; in English: childhood).\<close>

definition period_childhood :: string where
  "period_childhood =
     [CHR 0xEC, CHR 0x9C, CHR 0xA0, CHR 0xEB, CHR 0x85, CHR 0x84, CHR 0xEA, CHR 0xB8,
     CHR 0xB0]"

text \<open>The period name of line 228 (youth).\<close>

definition period_youth :: string where
  "period_youth =
     [CHR 0xEC, CHR 0xB2, CHR 0xAD, CHR 0xEB, CHR 0x85, CHR 0x84, CHR 0xEA, CHR 0xB8,
     CHR 0xB0]"

text \<open>The period name of line 229 (middle age).\<close>

definition period_middle_age :: string where
  "period_middle_age =
     [CHR 0xEC, CHR 0xA4, CHR 0x91, CHR 0xEB, CHR 0x85, CHR 0x84, CHR 0xEA, CHR 0xB8,
     CHR 0xB0]"

text \<open>The period name of line 230 (mature age).\<close>

definition period_mature :: string where
  "period_mature =
     [CHR 0xEC, CHR 0x9E, CHR 0xA5, CHR 0xEB, CHR 0x85, CHR 0x84, CHR 0xEA, CHR 0xB8,
     CHR 0xB0]"

text \<open>The period name of line 231 (old age).\<close>

definition period_elderly :: string where
  "period_elderly =
     [CHR 0xEB, CHR 0x85, CHR 0xB8, CHR 0xEB, CHR 0x85, CHR 0x84, CHR 0xEA, CHR 0xB8,
     CHR 0xB0]"

text \<open>The age range of line 227.\<close>

definition ages_childhood :: string where
  "ages_childhood =
     ''0-12'' @ [CHR 0xEC, CHR 0x84, CHR 0xB8]"

text \<open>The age range of line 228.\<close>

definition ages_youth :: string where
  "ages_youth =
     ''13-29'' @ [CHR 0xEC, CHR 0x84, CHR 0xB8]"

text \<open>The age range of line 229.\<close>

definition ages_middle_age :: string where
  "ages_middle_age =
     ''30-49'' @ [CHR 0xEC, CHR 0x84, CHR 0xB8]"

text \<open>The age range of line 230.\<close>

definition ages_mature :: string where
  "ages_mature =
     ''50-64'' @ [CHR 0xEC, CHR 0x84, CHR 0xB8]"

text \<open>The age range of line 231 (65 and over).\<close>

definition ages_elderly :: string where
  "ages_elderly =
     ''65'' @ [CHR 0xEC, CHR 0x84, CHR 0xB8] @ '' '' @ [CHR 0xEC, CHR 0x9D, CHR 0xB4,
     CHR 0xEC, CHR 0x83, CHR 0x81]"

text \<open>Line 238 up to the title (label: title).\<close>

definition label_title :: string where
  "label_title =
     [CHR 0xEC, CHR 0xA0, CHR 0x9C, CHR 0xEB, CHR 0xAA, CHR 0xA9] @ '': ''"

text \<open>Line 239 up to the content (label: content).\<close>

definition label_content :: string where
  "label_content =
     [CHR 0x0A, CHR 0xEB, CHR 0x82, CHR 0xB4, CHR 0xEC, CHR 0x9A, CHR 0xA9] @ '': ''"

text \<open>Line 240 up to the joined key events (label: key events).\<close>

definition label_key_events :: string where
  "label_key_events =
     [CHR 0x0A, CHR 0xEC, CHR 0xA3, CHR 0xBC, CHR 0xEC, CHR 0x9A, CHR 0x94] @ '' '' @
     [CHR 0xEC, CHR 0x82, CHR 0xAC, CHR 0xEA, CHR 0xB1, CHR 0xB4] @ '': ''"

text \<open>Line 241 up to the joined emotions (label: emotions).\<close>

definition label_emotions :: string where
  "label_emotions =
     [CHR 0x0A, CHR 0xEA, CHR 0xB0, CHR 0x90, CHR 0xEC, CHR 0xA0, CHR 0x95] @ '': ''"

text \<open>Line 242 up to the lessons (label: lessons).\<close>

definition label_lessons :: string where
  "label_lessons =
     [CHR 0x0A, CHR 0xEA, CHR 0xB5, CHR 0x90, CHR 0xED, CHR 0x9B, CHR 0x88] @ '': ''"

text \<open>The fallback of line 242 when there are no lessons (none).\<close>

definition text_none :: string where
  "text_none =
     [CHR 0xEC, CHR 0x97, CHR 0x86, CHR 0xEC, CHR 0x9D, CHR 0x8C]"

text \<open>The placeholder sentence of line 245 with its newline (there is not enough information about this period).\<close>

definition text_insufficient :: string where
  "text_insufficient =
     [CHR 0xED, CHR 0x95, CHR 0xB4, CHR 0xEB, CHR 0x8B, CHR 0xB9] @ '' '' @ [CHR 0xEC,
     CHR 0x8B, CHR 0x9C, CHR 0xEA, CHR 0xB8, CHR 0xB0, CHR 0xEC, CHR 0x97, CHR 0x90] @
     '' '' @ [CHR 0xEB, CHR 0x8C, CHR 0x80, CHR 0xED, CHR 0x95, CHR 0x9C] @ '' '' @
     [CHR 0xEC, CHR 0xA0, CHR 0x95, CHR 0xEB, CHR 0xB3, CHR 0xB4, CHR 0xEA, CHR 0xB0,
     CHR 0x80] @ '' '' @ [CHR 0xEB, CHR 0xB6, CHR 0x80, CHR 0xEC, CHR 0xA1, CHR 0xB1,
     CHR 0xED, CHR 0x95, CHR 0xA9, CHR 0xEB, CHR 0x8B, CHR 0x88, CHR 0xEB, CHR 0x8B,
     CHR 0xA4] @ ''.'' @ [CHR 0x0A]"

text \<open>The fallback of lines 252 and 253 (unknown).\<close>

definition text_unknown :: string where
  "text_unknown =
     [CHR 0xEB, CHR 0xB6, CHR 0x88, CHR 0xEB, CHR 0xAA, CHR 0x85]"

text \<open>Lines 247 to 251 of the integration request, up to the author name.\<close>

definition input_intro :: string where
  "input_intro =
     [CHR 0x0A, CHR 0xEB, CHR 0x8B, CHR 0xA4, CHR 0xEC, CHR 0x9D, CHR 0x8C] @ '' '' @
     [CHR 0xEB, CHR 0x82, CHR 0xB4, CHR 0xEC, CHR 0x9A, CHR 0xA9, CHR 0xEC, CHR 0x9D,
     CHR 0x84] @ '' '' @ [CHR 0xEB, CHR 0xB0, CHR 0x94, CHR 0xED, CHR 0x83, CHR 0x95,
     CHR 0xEC, CHR 0x9C, CHR 0xBC, CHR 0xEB, CHR 0xA1, CHR 0x9C] @ '' '' @ [CHR 0xEC,
     CHR 0x99, CHR 0x84, CHR 0xEC, CHR 0x84, CHR 0xB1, CHR 0xEB, CHR 0x90, CHR 0x9C] @
     '' '' @ [CHR 0xEC, CHR 0x9E, CHR 0x90, CHR 0xEC, CHR 0x84, CHR 0x9C, CHR 0xEC,
     CHR 0xA0, CHR 0x84, CHR 0xEC, CHR 0x9D, CHR 0x84] @ '' '' @ [CHR 0xEC, CHR 0x9E,
     CHR 0x91, CHR 0xEC, CHR 0x84, CHR 0xB1, CHR 0xED, CHR 0x95, CHR 0xB4, CHR 0xEC,
     CHR 0xA3, CHR 0xBC, CHR 0xEC, CHR 0x84, CHR 0xB8, CHR 0xEC, CHR 0x9A, CHR 0x94] @
     ''.'' @ [CHR 0x0A, CHR 0x0A] @ ''## '' @ [CHR 0xEC, CHR 0xA0, CHR 0x80, CHR 0xEC,
     CHR 0x9E, CHR 0x90] @ '' '' @ [CHR 0xEC, CHR 0xA0, CHR 0x95, CHR 0xEB, CHR 0xB3,
     CHR 0xB4, CHR 0x0A, CHR 0xEC, CHR 0x9D, CHR 0xB4, CHR 0xEB, CHR 0xA6, CHR 0x84] @
     '': ''"

text \<open>Line 252 up to the birth year.\<close>

definition input_birth_year :: string where
  "input_birth_year =
     [CHR 0x0A, CHR 0xEC, CHR 0xB6, CHR 0x9C, CHR 0xEC, CHR 0x83, CHR 0x9D, CHR 0xEB,
     CHR 0x85, CHR 0x84, CHR 0xEB, CHR 0x8F, CHR 0x84] @ '': ''"

text \<open>Line 253 up to the current age.\<close>

definition input_current_age :: string where
  "input_current_age =
     [CHR 0x0A, CHR 0xED, CHR 0x98, CHR 0x84, CHR 0xEC, CHR 0x9E, CHR 0xAC] @ '' '' @
     [CHR 0xEB, CHR 0x82, CHR 0x98, CHR 0xEC, CHR 0x9D, CHR 0xB4] @ '': ''"

text \<open>Lines 254 and 255, the heading before the summary.\<close>

definition input_summary :: string where
  "input_summary =
     [CHR 0x0A, CHR 0x0A] @ ''## '' @ [CHR 0xEC, CHR 0x9D, CHR 0xBC, CHR 0xEB, CHR 0x8C,
     CHR 0x80, CHR 0xEA, CHR 0xB8, CHR 0xB0] @ '' '' @ [CHR 0xEC, CHR 0x9A, CHR 0x94,
     CHR 0xEC, CHR 0x95, CHR 0xBD, CHR 0x0A]"

text \<open>Lines 257 and 258, the heading before the detected periods.\<close>

definition input_periods :: string where
  "input_periods =
     [CHR 0x0A, CHR 0x0A] @ ''## '' @ [CHR 0xEA, CHR 0xB0, CHR 0x90, CHR 0xEC, CHR 0xA7,
     CHR 0x80, CHR 0xEB, CHR 0x90, CHR 0x9C] @ '' '' @ [CHR 0xEC, CHR 0x9D, CHR 0xB8,
     CHR 0xEC, CHR 0x83, CHR 0x9D] @ '' '' @ [CHR 0xEC, CHR 0x8B, CHR 0x9C, CHR 0xEA,
     CHR 0xB8, CHR 0xB0, CHR 0x0A]"

text \<open>Lines 260 and 261, the heading before the main themes.\<close>

definition input_themes :: string where
  "input_themes =
     [CHR 0x0A, CHR 0x0A] @ ''## '' @ [CHR 0xEC, CHR 0xA3, CHR 0xBC, CHR 0xEC, CHR 0x9A,
     CHR 0x94] @ '' '' @ [CHR 0xED, CHR 0x85, CHR 0x8C, CHR 0xEB, CHR 0xA7, CHR 0x88,
     CHR 0x0A]"

text \<open>Lines 263 and 264, the rule before the chapter entries.\<close>

definition input_rule_open :: string where
  "input_rule_open =
     [CHR 0x0A, CHR 0x0A] @ ''---'' @ [CHR 0x0A]"

text \<open>Lines 266 to 270, the rule after the chapter entries and the closing instruction.\<close>

definition input_outro :: string where
  "input_outro =
     [CHR 0x0A] @ ''---'' @ [CHR 0x0A, CHR 0x0A, CHR 0xEC, CHR 0x9C, CHR 0x84] @ '' '' @
     [CHR 0xEB, CHR 0x82, CHR 0xB4, CHR 0xEC, CHR 0x9A, CHR 0xA9, CHR 0xEC, CHR 0x9D,
     CHR 0x84] @ '' '' @ [CHR 0xED, CHR 0x95, CHR 0x98, CHR 0xEB, CHR 0x82, CHR 0x98,
     CHR 0xEC, CHR 0x9D, CHR 0x98] @ '' '' @ [CHR 0xEC, CHR 0x99, CHR 0x84, CHR 0xEC,
     CHR 0x84, CHR 0xB1, CHR 0xEB, CHR 0x90, CHR 0x9C] @ '' '' @ [CHR 0xEC, CHR 0x9E,
     CHR 0x90, CHR 0xEC, CHR 0x84, CHR 0x9C, CHR 0xEC, CHR 0xA0, CHR 0x84, CHR 0xEC,
     CHR 0x9C, CHR 0xBC, CHR 0xEB, CHR 0xA1, CHR 0x9C] @ '' '' @ [CHR 0xED, CHR 0x86,
     CHR 0xB5, CHR 0xED, CHR 0x95, CHR 0xA9, CHR 0xED, CHR 0x95, CHR 0xB4, CHR 0xEC,
     CHR 0xA3, CHR 0xBC, CHR 0xEC, CHR 0x84, CHR 0xB8, CHR 0xEC, CHR 0x9A, CHR 0x94] @
     ''.'' @ [CHR 0x0A, CHR 0xEC, CHR 0xA0, CHR 0x9C, CHR 0xEB, CHR 0xAA, CHR 0xA9] @
     '', '' @ [CHR 0xED, CHR 0x94, CHR 0x84, CHR 0xEB, CHR 0xA1, CHR 0xA4, CHR 0xEB,
     CHR 0xA1, CHR 0x9C, CHR 0xEA, CHR 0xB7, CHR 0xB8] @ '', '' @ [CHR 0xEA, CHR 0xB0,
     CHR 0x81] @ '' '' @ [CHR 0xEC, CHR 0xB1, CHR 0x95, CHR 0xED, CHR 0x84, CHR 0xB0] @
     ''(period, title, content'' @ [CHR 0xEB, CHR 0xA5, CHR 0xBC] @ '' '' @ [CHR 0xED,
     CHR 0x8F, CHR 0xAC, CHR 0xED, CHR 0x95, CHR 0xA8, CHR 0xED, CHR 0x95, CHR 0x9C] @
     '' dict), '' @ [CHR 0xEC, CHR 0x97, CHR 0x90, CHR 0xED, CHR 0x95, CHR 0x84, CHR 0xEB,
     CHR 0xA1, CHR 0x9C, CHR 0xEA, CHR 0xB7, CHR 0xB8, CHR 0xEB, CHR 0xA5, CHR 0xBC] @
     '' '' @ [CHR 0xED, CHR 0x8F, CHR 0xAC, CHR 0xED, CHR 0x95, CHR 0xA8, CHR 0xED,
     CHR 0x95, CHR 0x98, CHR 0xEC, CHR 0x97, CHR 0xAC] @ '' '' @ [CHR 0xEC, CHR 0x99,
     CHR 0x84, CHR 0xEC, CHR 0x84, CHR 0xB1, CHR 0xEB, CHR 0x8F, CHR 0x84] @ '' '' @
     [CHR 0xEB, CHR 0x86, CHR 0x92, CHR 0xEC, CHR 0x9D, CHR 0x80] @ '' '' @ [CHR 0xEC,
     CHR 0x9E, CHR 0x90, CHR 0xEC, CHR 0x84, CHR 0x9C, CHR 0xEC, CHR 0xA0, CHR 0x84,
     CHR 0xEC, CHR 0x9D, CHR 0x84] @ '' '' @ [CHR 0xEC, CHR 0x9E, CHR 0x91, CHR 0xEC,
     CHR 0x84, CHR 0xB1, CHR 0xED, CHR 0x95, CHR 0x98, CHR 0xEC, CHR 0x84, CHR 0xB8,
     CHR 0xEC, CHR 0x9A, CHR 0x94] @ ''.'' @ [CHR 0x0A]"

text \<open>The message prefix of line 373 (an error occurred while generating the autobiography).\<close>

definition error_prefix :: string where
  "error_prefix =
     [CHR 0xEC, CHR 0x9E, CHR 0x90, CHR 0xEC, CHR 0x84, CHR 0x9C, CHR 0xEC, CHR 0xA0,
     CHR 0x84] @ '' '' @ [CHR 0xEC, CHR 0x83, CHR 0x9D, CHR 0xEC, CHR 0x84, CHR 0xB1] @
     '' '' @ [CHR 0xEC, CHR 0xA4, CHR 0x91] @ '' '' @ [CHR 0xEC, CHR 0x98, CHR 0xA4,
     CHR 0xEB, CHR 0xA5, CHR 0x98] @ '' '' @ [CHR 0xEB, CHR 0xB0, CHR 0x9C, CHR 0xEC,
     CHR 0x83, CHR 0x9D] @ '': ''"

text \<open>The message of the ImportError of line 114 (pydub is required).\<close>

definition import_error_text :: string where
  "import_error_text =
     ''pydub'' @ [CHR 0xEA, CHR 0xB0, CHR 0x80] @ '' '' @ [CHR 0xED, CHR 0x95, CHR 0x84,
     CHR 0xEC, CHR 0x9A, CHR 0x94, CHR 0xED, CHR 0x95, CHR 0xA9, CHR 0xEB, CHR 0x8B,
     CHR 0x88, CHR 0xEB, CHR 0x8B, CHR 0xA4] @ '': pip install pydub''"

text \<open>The message of the AttributeError raised by reading an attribute of None.\<close>

definition attribute_error_text :: string where
  "attribute_error_text =
     [CHR 0x27] @ ''NoneType'' @ [CHR 0x27] @ '' object has no attribute '' @ [CHR 0x27] @
     ''author_name'' @ [CHR 0x27]"

text \<open>The message raised by the graph library at its step limit.\<close>

definition recursion_error_text :: string where
  "recursion_error_text =
     ''Recursion limit of 25 reached without hitting a stop condition.''"

section \<open>Audio chunk splitter (services/audio\_transcriber.py)\<close>

text \<open>
  The class constants of \<open>AudioTranscriber\<close>.  Python integers are unbounded, so
  durations and offsets are \<open>int\<close>.
\<close>

definition MAX_CHUNK_DURATION_MS :: int where
  "MAX_CHUNK_DURATION_MS = 10 * 60 * 1000"

definition OVERLAP_MS :: int where
  "OVERLAP_MS = 5000"

text \<open>
  An audio segment is represented by its length in milliseconds (\<open>len(audio)\<close>).
  A chunk \<open>audio[start_ms:end_ms]\<close> is the pair of its slice bounds: the window
  from \<open>start_ms\<close> (included) to \<open>end_ms\<close> (excluded) of the audio it was cut
  from.  The audio itself, returned unsliced by the short path, is the window
  \<open>(0, len(audio))\<close>.
\<close>

type_synonym chunk = "int \<times> int"

text \<open>
  The \<open>while\<close> loop of \<open>_split_audio\<close>: its state is the list built so far and
  \<open>start_ms\<close>.  \<open>break\<close> returns the list as it is after the append.
\<close>

function split_loop :: "int \<Rightarrow> chunk list \<Rightarrow> int \<Rightarrow> chunk list" where
  "split_loop duration_ms chunks start_ms =
     (if start_ms < duration_ms then
        (let end_ms = min (start_ms + MAX_CHUNK_DURATION_MS) duration_ms;
             chunks' = chunks @ [(start_ms, end_ms)];
             start_ms' = end_ms - OVERLAP_MS
         in if duration_ms - start_ms' < OVERLAP_MS * 2 then chunks'
            else split_loop duration_ms chunks' start_ms')
      else chunks)"
  by pat_completeness auto
termination
  by (relation "measure (\<lambda>(duration_ms, chunks, start_ms). nat (duration_ms - start_ms))")
     (auto simp: MAX_CHUNK_DURATION_MS_def OVERLAP_MS_def min_def split: if_splits)

definition split_audio :: "int \<Rightarrow> chunk list" where
  "split_audio duration_ms =
     (if duration_ms \<le> MAX_CHUNK_DURATION_MS then [(0, duration_ms)]
      else split_loop duration_ms [] 0)"

text \<open>A millisecond \<open>t\<close> of the audio lies in some chunk of the list.\<close>

definition covered :: "chunk list \<Rightarrow> int \<Rightarrow> bool" where
  "covered chunks t = list_ex (\<lambda>(s, e). s \<le> t \<and> t < e) chunks"

text \<open>
  The shape of a chunk list over an audio of length \<open>d\<close>: every window ends at its
  start plus the maximum chunk duration, clipped to \<open>d\<close>, and every window after
  the first starts at the end of its predecessor minus the overlap.
\<close>

fun chained :: "int \<Rightarrow> chunk list \<Rightarrow> bool" where
  "chained d [] = True"
| "chained d [(s, e)] = (e = min (s + MAX_CHUNK_DURATION_MS) d)"
| "chained d ((s, e) # (s', e') # rest) =
     (e = min (s + MAX_CHUNK_DURATION_MS) d \<and> s' = e - OVERLAP_MS \<and> chained d ((s', e') # rest))"

section \<open>Chunked transcription (services/audio\_transcriber.py)\<close>

text \<open>
  What \<open>_transcribe_large_file\<close> gets from outside: whether pydub was imported,
  the audio loaded from the file (its length, or the exception raised while loading),
  the outcome of exporting a chunk and sending it to the speech-to-text service, and
  the moments at which the concurrent per-chunk calls finish.
\<close>

record transcriber_env =
  PYDUB_AVAILABLE :: bool
  from_file :: "py_exception + int"
  transcriptions_create :: "chunk \<Rightarrow> py_exception + string"
  chunk_finish :: "nat \<Rightarrow> nat"

text \<open>
  \<open>_transcribe_chunk\<close>: the chunk is exported to \<open>chunk_<index>.mp3\<close> and that
  file is transcribed; the index only names the temporary file.
\<close>

definition transcribe_chunk :: "transcriber_env \<Rightarrow> chunk \<Rightarrow> nat \<Rightarrow> py_exception + string" where
  "transcribe_chunk env chunk chunk_index = transcriptions_create env chunk"

text \<open>The paragraph break \<open>"\n\n"\<close> of line 151.\<close>

definition paragraph_break :: string where
  "paragraph_break = [CHR 0x0A, CHR 0x0A]"

text \<open>
  \<open>_transcribe_large_file\<close>.  The temporary directory and the progress output do
  not affect the returned text and are left out.
\<close>

definition transcribe_large_file :: "transcriber_env \<Rightarrow> py_exception + string" where
  "transcribe_large_file env =
     (if \<not> PYDUB_AVAILABLE env then Inl (PyException import_error_text)
      else case from_file env of
        Inl e \<Rightarrow> Inl e
      | Inr duration_ms \<Rightarrow>
          (let chunks = split_audio duration_ms;
               tasks = map (\<lambda>(i, chunk). transcribe_chunk env chunk i) (enumerate 0 chunks)
           in case gather tasks (chunk_finish env) of
                Inl e \<Rightarrow> Inl e
              | Inr results \<Rightarrow> Inr (py_join paragraph_break results)))"


section \<open>Data model (autobiography\_agents)\<close>

text \<open>
  The pydantic models.  Field names are those of the source; the fields of
  \<open>Chapter\<close> and \<open>AutobiographyResult\<close> carry a prefix where the source reuses a
  name of \<open>LifeStorySection\<close> or \<open>AnalysisResult\<close>.
\<close>

record LifeStorySection =
  period :: string
  age_range :: string
  title :: string
  content :: string
  key_events :: "string list"
  emotions :: "string list"
  lessons_learned :: "string option"
  has_content :: bool

record Chapter =
  chapter_period :: string
  chapter_title :: string
  chapter_content :: string

record AutobiographyResult =
  book_title :: string
  book_author_name :: string
  prologue :: string
  chapters :: "Chapter list"
  epilogue :: string
  key_themes :: "string list"
  life_lessons :: "string list"

record AnalysisResult =
  author_name :: string
  birth_year :: "int option"
  current_age :: "int option"
  summary :: string
  detected_periods :: "string list"
  main_themes :: "string list"

record AutobiographyState =
  transcript :: string
  analysis :: "AnalysisResult option"
  childhood_chapter :: "LifeStorySection option"
  youth_chapter :: "LifeStorySection option"
  middle_age_chapter :: "LifeStorySection option"
  mature_chapter :: "LifeStorySection option"
  elderly_chapter :: "LifeStorySection option"
  final_autobiography :: "AutobiographyResult option"
  current_step :: string
  error :: "string option"

section \<open>The remote services\<close>

text \<open>
  A chain is built by a \<open>create_...\<close> function, which may raise, and is then invoked
  on its input text, which may raise as well.  The environment records what the
  services of one run do: the outcome of building each chain, the outcome of each
  invocation, and the moments at which the five concurrent branch calls finish.
\<close>

datatype life_stage = Childhood | Youth | Middle_age | Mature | Elderly

type_synonym 'a chain = "string \<Rightarrow> py_exception + 'a"

record env =
  analyzer_chain :: "py_exception + AnalysisResult chain"
  life_stage_chain :: "life_stage \<Rightarrow> py_exception + LifeStorySection chain"
  integrator_chain :: "py_exception + AutobiographyResult chain"
  branch_finish :: "nat \<Rightarrow> nat"

definition create_analyzer_chain :: "env \<Rightarrow> py_exception + AnalysisResult chain" where
  "create_analyzer_chain env = analyzer_chain env"

definition create_integrator_chain :: "env \<Rightarrow> py_exception + AutobiographyResult chain" where
  "create_integrator_chain env = integrator_chain env"

definition create_childhood_agent :: "env \<Rightarrow> py_exception + LifeStorySection chain" where
  "create_childhood_agent env = life_stage_chain env Childhood"

definition create_youth_agent :: "env \<Rightarrow> py_exception + LifeStorySection chain" where
  "create_youth_agent env = life_stage_chain env Youth"

definition create_middle_age_agent :: "env \<Rightarrow> py_exception + LifeStorySection chain" where
  "create_middle_age_agent env = life_stage_chain env Middle_age"

definition create_mature_agent :: "env \<Rightarrow> py_exception + LifeStorySection chain" where
  "create_mature_agent env = life_stage_chain env Mature"

definition create_elderly_agent :: "env \<Rightarrow> py_exception + LifeStorySection chain" where
  "create_elderly_agent env = life_stage_chain env Elderly"

section \<open>The step functions (orchestrator.py)\<close>

text \<open>
  The \<open>except\<close> clause shared by the three nodes:
  \<open>return {**state, "error": str(e), "current_step": "error"}\<close>.
\<close>

definition error_state :: "AutobiographyState \<Rightarrow> py_exception \<Rightarrow> AutobiographyState" where
  "error_state state e = state\<lparr>error := Some (str_exc e), current_step := ''error''\<rparr>"

subsection \<open>analyze\_node\<close>

definition analyze_try :: "env \<Rightarrow> AutobiographyState \<Rightarrow> py_exception + AutobiographyState" where
  "analyze_try env state =
     (case create_analyzer_chain env of
        Inl e \<Rightarrow> Inl e
      | Inr analyzer \<Rightarrow>
          (case analyzer (transcript state) of
             Inl e \<Rightarrow> Inl e
           | Inr analysis' \<Rightarrow>
               Inr (state\<lparr>analysis := Some analysis', current_step := ''chapters''\<rparr>)))"

definition analyze_node :: "env \<Rightarrow> AutobiographyState \<Rightarrow> py_exception + AutobiographyState" where
  "analyze_node env state =
     try_except (analyze_try env state) (\<lambda>e. Inr (error_state state e))"

subsection \<open>write\_chapters\_node\<close>

definition chapter_names :: "string list" where
  "chapter_names = [''childhood'', ''youth'', ''middle_age'', ''mature'', ''elderly'']"

definition display_names :: "string list" where
  "display_names =
     [period_childhood, period_youth, period_middle_age, period_mature, period_elderly]"

text \<open>
  The loop of lines 200 to 206 over \<open>zip(chapter_names, display_names, results)\<close>:
  an exception in a position stores \<open>None\<close> under that position's key, a value is
  stored as it is.  The dictionary \<open>chapters\<close> is a map from keys to slot values.
\<close>

fun chapters_loop ::
  "(string \<times> string \<times> (py_exception + LifeStorySection)) list \<Rightarrow>
   (string \<rightharpoonup> LifeStorySection option) \<Rightarrow> (string \<rightharpoonup> LifeStorySection option)" where
  "chapters_loop [] chapters' = chapters'"
| "chapters_loop ((name, display_name, result) # rest) chapters' =
     chapters_loop rest
       (chapters'(name @ ''_chapter'' \<mapsto> (case result of Inl e \<Rightarrow> None | Inr section \<Rightarrow> Some section)))"

text \<open>
  \<open>{**state, **chapters}\<close>: every key present in \<open>chapters\<close> replaces the slot of
  that name in the state.
\<close>

definition spread_chapters ::
  "(string \<rightharpoonup> LifeStorySection option) \<Rightarrow> AutobiographyState \<Rightarrow> AutobiographyState" where
  "spread_chapters chapters' state =
     state\<lparr>childhood_chapter :=
             (case chapters' ''childhood_chapter'' of Some v \<Rightarrow> v | None \<Rightarrow> childhood_chapter state),
           youth_chapter :=
             (case chapters' ''youth_chapter'' of Some v \<Rightarrow> v | None \<Rightarrow> youth_chapter state),
           middle_age_chapter :=
             (case chapters' ''middle_age_chapter'' of Some v \<Rightarrow> v | None \<Rightarrow> middle_age_chapter state),
           mature_chapter :=
             (case chapters' ''mature_chapter'' of Some v \<Rightarrow> v | None \<Rightarrow> mature_chapter state),
           elderly_chapter :=
             (case chapters' ''elderly_chapter'' of Some v \<Rightarrow> v | None \<Rightarrow> elderly_chapter state)\<rparr>"

text \<open>
  The five branch calls on the transcript, in the order in which lines 187 to 191 pass
  them to \<open>gather\<close>.
\<close>

definition branch_calls ::
  "LifeStorySection chain \<Rightarrow> LifeStorySection chain \<Rightarrow> LifeStorySection chain \<Rightarrow>
   LifeStorySection chain \<Rightarrow> LifeStorySection chain \<Rightarrow> string \<Rightarrow>
   (py_exception + LifeStorySection) list" where
  "branch_calls childhood_agent youth_agent middle_age_agent mature_agent elderly_agent t =
     [childhood_agent t, youth_agent t, middle_age_agent t, mature_agent t, elderly_agent t]"

definition write_chapters_try :: "env \<Rightarrow> AutobiographyState \<Rightarrow> py_exception + AutobiographyState" where
  "write_chapters_try env state =
     (case create_childhood_agent env of Inl e \<Rightarrow> Inl e | Inr childhood_agent \<Rightarrow>
      case create_youth_agent env of Inl e \<Rightarrow> Inl e | Inr youth_agent \<Rightarrow>
      case create_middle_age_agent env of Inl e \<Rightarrow> Inl e | Inr middle_age_agent \<Rightarrow>
      case create_mature_agent env of Inl e \<Rightarrow> Inl e | Inr mature_agent \<Rightarrow>
      case create_elderly_agent env of Inl e \<Rightarrow> Inl e | Inr elderly_agent \<Rightarrow>
        (let results = gather_return_exceptions
                         (branch_calls childhood_agent youth_agent middle_age_agent
                            mature_agent elderly_agent (transcript state))
                         (branch_finish env);
             chapters' = chapters_loop (zip chapter_names (zip display_names results)) Map.empty
         in Inr ((spread_chapters chapters' state)\<lparr>current_step := ''integrate''\<rparr>)))"

definition write_chapters_node :: "env \<Rightarrow> AutobiographyState \<Rightarrow> py_exception + AutobiographyState" where
  "write_chapters_node env state =
     try_except (write_chapters_try env state) (\<lambda>e. Inr (error_state state e))"

subsection \<open>integrate\_node\<close>

definition comma :: string where
  "comma = '', ''"

text \<open>The header \<open>"\n## {period} ({age_range})\n"\<close> that opens both kinds of entry.\<close>

definition entry_header :: "string \<Rightarrow> string \<Rightarrow> string" where
  "entry_header period' age_range' =
     [CHR 0x0A] @ ''## '' @ period' @ '' ('' @ age_range' @ '')'' @ [CHR 0x0A]"

text \<open>
  One iteration of the loop of lines 234 to 245: the text appended to
  \<open>chapters_info\<close> for a period, its age range and its slot.  A model object is
  always true in a condition, so \<open>chapter and chapter.has_content\<close> fails exactly for
  \<open>None\<close> and for a section whose \<open>has_content\<close> is false.
\<close>

definition chapter_entry :: "string \<Rightarrow> string \<Rightarrow> LifeStorySection option \<Rightarrow> string" where
  "chapter_entry period' age_range' chapter =
     (case chapter of
        Some c \<Rightarrow>
          if has_content c then
            entry_header period' age_range' @
            label_title @ title c @
            label_content @ content c @
            label_key_events @ py_join comma (key_events c) @
            label_emotions @ py_join comma (emotions c) @
            label_lessons @ str_or (lessons_learned c) text_none @ [CHR 0x0A]
          else entry_header period' age_range' @ text_insufficient
      | None \<Rightarrow> entry_header period' age_range' @ text_insufficient)"

definition chapter_data :: "AutobiographyState \<Rightarrow> (string \<times> string \<times> LifeStorySection option) list" where
  "chapter_data state =
     [(period_childhood, ages_childhood, childhood_chapter state),
      (period_youth, ages_youth, youth_chapter state),
      (period_middle_age, ages_middle_age, middle_age_chapter state),
      (period_mature, ages_mature, mature_chapter state),
      (period_elderly, ages_elderly, elderly_chapter state)]"

definition chapters_info :: "AutobiographyState \<Rightarrow> string list" where
  "chapters_info state =
     map (\<lambda>(period', age_range', chapter). chapter_entry period' age_range' chapter)
       (chapter_data state)"

text \<open>The f-string of lines 247 to 270.\<close>

definition integration_input :: "AnalysisResult \<Rightarrow> string list \<Rightarrow> string" where
  "integration_input analysis' info =
     input_intro @ author_name analysis' @
     input_birth_year @ int_or (birth_year analysis') text_unknown @
     input_current_age @ int_or (current_age analysis') text_unknown @
     input_summary @ summary analysis' @
     input_periods @ py_join comma (detected_periods analysis') @
     input_themes @ py_join comma (main_themes analysis') @
     input_rule_open @ concat info @ input_outro"

text \<open>
  The body of the \<open>try\<close>.  With no analysis in the state, reading
  \<open>analysis.author_name\<close> raises an AttributeError, after the entries were built and
  before the integrator is created.
\<close>

definition integrate_try :: "env \<Rightarrow> AutobiographyState \<Rightarrow> py_exception + AutobiographyState" where
  "integrate_try env state =
     (let info = chapters_info state in
      case analysis state of
        None \<Rightarrow> Inl (PyException attribute_error_text)
      | Some analysis' \<Rightarrow>
          (let input = integration_input analysis' info in
           case create_integrator_chain env of
             Inl e \<Rightarrow> Inl e
           | Inr integrator \<Rightarrow>
               (case integrator input of
                  Inl e \<Rightarrow> Inl e
                | Inr result \<Rightarrow>
                    Inr (state\<lparr>final_autobiography := Some result, current_step := ''complete''\<rparr>))))"

definition integrate_node :: "env \<Rightarrow> AutobiographyState \<Rightarrow> py_exception + AutobiographyState" where
  "integrate_node env state =
     try_except (integrate_try env state) (\<lambda>e. Inr (error_state state e))"

section \<open>The graph and its driver (orchestrator.py)\<close>

definition should_continue :: "AutobiographyState \<Rightarrow> string" where
  "should_continue state = (if truthy (error state) then ''error'' else current_step state)"

datatype node = Analyze | Write_chapters | Integrate

datatype target = To node | END

record graph =
  entry_point :: node
  conditional_edges :: "node \<Rightarrow> (string \<times> target) list"

definition create_orchestrator :: graph where
  "create_orchestrator =
     \<lparr>entry_point = Analyze,
      conditional_edges =
        (\<lambda>n. case n of
           Analyze \<Rightarrow> [(''chapters'', To Write_chapters), (''error'', END)]
         | Write_chapters \<Rightarrow> [(''integrate'', To Integrate), (''error'', END)]
         | Integrate \<Rightarrow> [(''complete'', END), (''error'', END)])\<rparr>"

definition node_function :: "node \<Rightarrow> env \<Rightarrow> AutobiographyState \<Rightarrow> py_exception + AutobiographyState" where
  "node_function n =
     (case n of Analyze \<Rightarrow> analyze_node | Write_chapters \<Rightarrow> write_chapters_node
      | Integrate \<Rightarrow> integrate_node)"

text \<open>
  The compiled graph run by \<open>graph.ainvoke\<close>: the node is called on the state, the
  router's answer is looked up among the node's edges, and the run ends at \<open>END\<close> or
  goes on at the node named.  An exception raised by a node, an answer with no edge and
  the step limit of the graph library (25 by default) end the run with an exception.
  Beside the outcome the driver returns the nodes it has called, in order.
\<close>

definition recursion_limit :: nat where
  "recursion_limit = 25"

fun graph_steps ::
  "nat \<Rightarrow> env \<Rightarrow> graph \<Rightarrow> node \<Rightarrow> node list \<Rightarrow> AutobiographyState \<Rightarrow>
   node list \<times> (py_exception + AutobiographyState)" where
  "graph_steps 0 env g n called state = (called, Inl (PyException recursion_error_text))"
| "graph_steps (Suc limit) env g n called state =
     (case node_function n env state of
        Inl e \<Rightarrow> (called @ [n], Inl e)
      | Inr state' \<Rightarrow>
          (case map_of (conditional_edges g n) (should_continue state') of
             None \<Rightarrow> (called @ [n], Inl (PyException (repr_str (should_continue state'))))
           | Some END \<Rightarrow> (called @ [n], Inr state')
           | Some (To n') \<Rightarrow> graph_steps limit env g n' (called @ [n]) state'))"

definition graph_ainvoke ::
  "env \<Rightarrow> graph \<Rightarrow> AutobiographyState \<Rightarrow> node list \<times> (py_exception + AutobiographyState)" where
  "graph_ainvoke env g state = graph_steps recursion_limit env g (entry_point g) [] state"

definition initial_state :: "string \<Rightarrow> AutobiographyState" where
  "initial_state t =
     \<lparr>transcript = t, analysis = None, childhood_chapter = None, youth_chapter = None,
      middle_age_chapter = None, mature_chapter = None, elderly_chapter = None,
      final_autobiography = None, current_step = ''analyze'', error = None\<rparr>"

text \<open>
  \<open>run_autobiography_generation\<close>: \<open>Inl\<close> is the exception it raises, \<open>Inr\<close> the
  value it returns, which is whatever the final state holds in
  \<open>final_autobiography\<close>.
\<close>

definition run_autobiography_generation :: "env \<Rightarrow> string \<Rightarrow> py_exception + AutobiographyResult option" where
  "run_autobiography_generation env t =
     (case snd (graph_ainvoke env create_orchestrator (initial_state t)) of
        Inl e \<Rightarrow> Inl e
      | Inr final_state \<Rightarrow>
          if truthy (error final_state)
          then Inl (PyException (error_prefix @ format_opt (error final_state)))
          else Inr (final_autobiography final_state))"


section \<open>Vocabulary of the statements\<close>

text \<open>The value the loop of \<open>write_chapters_node\<close> stores for one gathered outcome.\<close>

definition slot_value :: "py_exception + LifeStorySection \<Rightarrow> LifeStorySection option" where
  "slot_value result = (case result of Inl e \<Rightarrow> None | Inr section \<Rightarrow> Some section)"

text \<open>
  A 21-minute recording whose three chunks are transcribed as \<open>one\<close>, \<open>two\<close> and
  \<open>three\<close>.
\<close>

definition env_three_chunks :: transcriber_env where
  "env_three_chunks =
     \<lparr>PYDUB_AVAILABLE = True, from_file = Inr 1260000,
      transcriptions_create =
        (\<lambda>c. Inr (if fst c = 0 then ''one'' else if fst c = 595000 then ''two'' else ''three'')),
      chunk_finish = (\<lambda>i. i)\<rparr>"

text \<open>The run of the graph from the initial state, by the outcomes of the three bodies.\<close>

definition pipeline :: "env \<Rightarrow> string \<Rightarrow> node list \<times> AutobiographyState" where
  "pipeline env t =
     (case analyze_try env (initial_state t) of
        Inl e \<Rightarrow> ([Analyze], error_state (initial_state t) e)
      | Inr s1 \<Rightarrow>
          (case write_chapters_try env s1 of
             Inl e \<Rightarrow> ([Analyze, Write_chapters], error_state s1 e)
           | Inr s2 \<Rightarrow>
               (case integrate_try env s2 of
                  Inl e \<Rightarrow> ([Analyze, Write_chapters, Integrate], error_state s2 e)
                | Inr s3 \<Rightarrow> ([Analyze, Write_chapters, Integrate], s3))))"

definition analysis_ok :: AnalysisResult where
  "analysis_ok =
     \<lparr>author_name = ''Kim'', birth_year = Some 1950, current_age = None,
      summary = ''a life'', detected_periods = [period_childhood, period_youth],
      main_themes = [''family'']\<rparr>"

definition book_ok :: AutobiographyResult where
  "book_ok =
     \<lparr>book_title = ''A life'', book_author_name = ''Kim'', prologue = ''p'', chapters = [],
      epilogue = ''e'', key_themes = [], life_lessons = []\<rparr>"


text \<open>The analysis works, the life-stage chains cannot be built.\<close>

definition env_no_agents :: env where
  "env_no_agents =
     \<lparr>analyzer_chain = Inr (\<lambda>t. Inr analysis_ok),
      life_stage_chain = (\<lambda>p. Inl (PyException ''api key'')),
      integrator_chain = Inr (\<lambda>i. Inr book_ok),
      branch_finish = (\<lambda>i. i)\<rparr>"

text \<open>All five branch calls raise; the last branch finishes first.\<close>

definition env_all_branches_fail :: env where
  "env_all_branches_fail =
     \<lparr>analyzer_chain = Inr (\<lambda>t. Inr analysis_ok),
      life_stage_chain = (\<lambda>p. Inr (\<lambda>t. Inl (PyException ''timeout''))),
      integrator_chain = Inr (\<lambda>i. Inr book_ok),
      branch_finish = (\<lambda>i. 4 - i)\<rparr>"

text \<open>The analysis call raises an exception whose text is empty, such as \<open>TimeoutError()\<close>.\<close>

definition env_silent_analysis_failure :: env where
  "env_silent_analysis_failure =
     \<lparr>analyzer_chain = Inr (\<lambda>t. Inl (PyException [])),
      life_stage_chain = (\<lambda>p. Inr (\<lambda>t. Inl (PyException ''timeout''))),
      integrator_chain = Inr (\<lambda>i. Inr book_ok),
      branch_finish = (\<lambda>i. i)\<rparr>"

text \<open>The integration call raises an exception whose text is empty.\<close>

definition env_silent_integration_failure :: env where
  "env_silent_integration_failure =
     \<lparr>analyzer_chain = Inr (\<lambda>t. Inr analysis_ok),
      life_stage_chain = (\<lambda>p. Inr (\<lambda>t. Inl (PyException ''timeout''))),
      integrator_chain = Inr (\<lambda>i. Inl (PyException [])),
      branch_finish = (\<lambda>i. i)\<rparr>"

text \<open>The state after a successful analysis on transcript \<open>t\<close>, for the examples.\<close>

definition analysed_state :: AutobiographyState where
  "analysed_state = (initial_state ''t'')\<lparr>analysis := Some analysis_ok, current_step := ''chapters''\<rparr>"

text \<open>The five periods with their age ranges, and the five slots of a state, in the
  canonical order childhood, youth, middle age, mature age, old age.\<close>

definition canonical_periods :: "(string \<times> string) list" where
  "canonical_periods =
     [(period_childhood, ages_childhood), (period_youth, ages_youth),
      (period_middle_age, ages_middle_age), (period_mature, ages_mature),
      (period_elderly, ages_elderly)]"

definition period_slots :: "AutobiographyState \<Rightarrow> LifeStorySection option list" where
  "period_slots state =
     [childhood_chapter state, youth_chapter state, middle_age_chapter state,
      mature_chapter state, elderly_chapter state]"

text \<open>A slot that is null or whose section reports no content.\<close>

definition no_content :: "LifeStorySection option \<Rightarrow> bool" where
  "no_content slot = (case slot of None \<Rightarrow> True | Some c \<Rightarrow> \<not> has_content c)"

text \<open>The header of the entry in position \<open>i\<close>.\<close>

definition canonical_header :: "nat \<Rightarrow> string" where
  "canonical_header i = entry_header (fst (canonical_periods ! i)) (snd (canonical_periods ! i))"

text \<open>A section with content and one that reports none.\<close>

definition section_ok :: LifeStorySection where
  "section_ok =
     \<lparr>period = period_childhood, age_range = ages_childhood, title = ''Home'',
      content = ''Born by the sea.'', key_events = [''birth'', ''school''],
      emotions = [''joy''], lessons_learned = None, has_content = True\<rparr>"

definition section_empty :: LifeStorySection where
  "section_empty =
     \<lparr>period = period_middle_age, age_range = ages_middle_age, title = [],
      content = [], key_events = [], emotions = [], lessons_learned = None,
      has_content = False\<rparr>"

definition mixed_state :: AutobiographyState where
  "mixed_state =
     (initial_state ''t'')\<lparr>analysis := Some analysis_ok, childhood_chapter := Some section_ok,
        middle_age_chapter := Some section_empty, current_step := ''integrate''\<rparr>"


text \<open>The branch call for youth raises; the other four return a section with content.\<close>

definition env_one_failure :: env where
  "env_one_failure =
     \<lparr>analyzer_chain = Inr (\<lambda>t. Inr analysis_ok),
      life_stage_chain =
        (\<lambda>p. if p = Youth then Inr (\<lambda>t. Inl (PyException ''timeout''))
             else Inr (\<lambda>t. Inr section_ok)),
      integrator_chain = Inr (\<lambda>i. Inr book_ok),
      branch_finish = (\<lambda>i. i)\<rparr>"

text \<open>
  Four life-stage chains are built and return a section; building the last one, for old
  age, raises.
\<close>

definition env_elderly_unbuilt :: env where
  "env_elderly_unbuilt =
     \<lparr>analyzer_chain = Inr (\<lambda>t. Inr analysis_ok),
      life_stage_chain =
        (\<lambda>p. if p = Elderly then Inl (PyException ''api key'')
             else Inr (\<lambda>t. Inr section_ok)),
      integrator_chain = Inr (\<lambda>i. Inr book_ok),
      branch_finish = (\<lambda>i. i)\<rparr>"

section \<open>Properties of the splitter\<close>

lemmas split_consts = MAX_CHUNK_DURATION_MS_def OVERLAP_MS_def

declare split_loop.simps [simp del]

lemma chained_snoc:
  "chained d cs \<Longrightarrow> (cs \<noteq> [] \<longrightarrow> s = snd (last cs) - OVERLAP_MS) \<Longrightarrow>
   chained d (cs @ [(s, min (s + MAX_CHUNK_DURATION_MS) d)])"
  by (induction d cs rule: chained.induct) auto

lemma split_loop_chained:
  "chained d chunks \<Longrightarrow> (chunks \<noteq> [] \<longrightarrow> start = snd (last chunks) - OVERLAP_MS) \<Longrightarrow>
   chained d (split_loop d chunks start)"
proof (induction d chunks start rule: split_loop.induct)
  case (1 d chunks start)
  show ?case
  proof (cases "start < d")
    case False
    then show ?thesis using "1.prems" by (simp add: split_loop.simps [of d chunks start])
  next
    case True
    let ?e = "min (start + MAX_CHUNK_DURATION_MS) d"
    let ?cs = "chunks @ [(start, ?e)]"
    have cs: "chained d ?cs" using "1.prems" by (rule chained_snoc)
    show ?thesis
    proof (cases "d - (?e - OVERLAP_MS) < OVERLAP_MS * 2")
      case True
      with \<open>start < d\<close> cs show ?thesis
        by (simp add: split_loop.simps [of d chunks start] Let_def)
    next
      case False
      have "chained d (split_loop d ?cs (?e - OVERLAP_MS))"
        using "1.IH" [OF \<open>start < d\<close> refl refl refl False] cs by simp
      with \<open>start < d\<close> False show ?thesis
        by (simp add: split_loop.simps [of d chunks start] Let_def)
    qed
  qed
qed

lemma split_loop_tail:
  "start + OVERLAP_MS \<le> d \<Longrightarrow> \<forall>c\<in>set chunks. snd c \<le> start + OVERLAP_MS \<Longrightarrow>
   split_loop d chunks start \<noteq> [] \<and>
   snd (last (split_loop d chunks start)) \<le> d \<and>
   d - snd (last (split_loop d chunks start)) < OVERLAP_MS \<and>
   (\<forall>c\<in>set (split_loop d chunks start). snd c \<le> snd (last (split_loop d chunks start)))"
proof (induction d chunks start rule: split_loop.induct)
  case (1 d chunks start)
  let ?e = "min (start + MAX_CHUNK_DURATION_MS) d"
  let ?cs = "chunks @ [(start, ?e)]"
  have lt: "start < d" using "1.prems"(1) by (simp add: split_consts)
  have ends: "\<forall>c\<in>set chunks. snd c \<le> ?e"
    using "1.prems" by (auto simp: split_consts min_def)
  show ?case
  proof (cases "d - (?e - OVERLAP_MS) < OVERLAP_MS * 2")
    case True
    have "split_loop d chunks start = ?cs"
      using lt True by (simp add: split_loop.simps [of d chunks start] Let_def)
    moreover have "d - ?e < OVERLAP_MS" using True by simp
    ultimately show ?thesis using ends by auto
  next
    case False
    have eq: "split_loop d chunks start = split_loop d ?cs (?e - OVERLAP_MS)"
      using lt False by (simp add: split_loop.simps [of d chunks start] Let_def)
    have p1: "?e - OVERLAP_MS + OVERLAP_MS \<le> d" by simp
    have p2: "\<forall>c\<in>set ?cs. snd c \<le> ?e - OVERLAP_MS + OVERLAP_MS" using ends by simp
    show ?thesis
      unfolding eq using "1.IH" [OF lt refl refl refl False p1 p2] .
  qed
qed


lemma split_loop_prefix: "\<exists>rest. split_loop d chunks start = chunks @ rest"
proof (induction d chunks start rule: split_loop.induct)
  case (1 d chunks start)
  let ?e = "min (start + MAX_CHUNK_DURATION_MS) d"
  show ?case
  proof (cases "start < d \<and> \<not> d - (?e - OVERLAP_MS) < OVERLAP_MS * 2")
    case True
    then obtain rest where "split_loop d (chunks @ [(start, ?e)]) (?e - OVERLAP_MS) =
        (chunks @ [(start, ?e)]) @ rest"
      using "1.IH" [OF _ refl refl refl] by blast
    with True show ?thesis
      by (simp add: split_loop.simps [of d chunks start] Let_def)
  next
    case False
    then show ?thesis
      by (auto simp: split_loop.simps [of d chunks start] Let_def)
  qed
qed

lemma split_loop_first:
  assumes "start < d"
  shows "\<exists>rest. split_loop d [] start = (start, min (start + MAX_CHUNK_DURATION_MS) d) # rest"
proof -
  let ?c = "(start, min (start + MAX_CHUNK_DURATION_MS) d)"
  obtain rest where "split_loop d [?c] (snd ?c - OVERLAP_MS) = [?c] @ rest"
    using split_loop_prefix by blast
  with assms show ?thesis
    by (simp add: split_loop.simps [of d "[]" start] Let_def)
qed

lemma split_audio_first: "\<exists>e rest. split_audio d = (0, e) # rest"
proof (cases "d \<le> MAX_CHUNK_DURATION_MS")
  case True
  then show ?thesis by (simp add: split_audio_def)
next
  case False
  then have "0 < d" by (simp add: split_consts)
  from split_loop_first [OF this] False show ?thesis
    by (auto simp: split_audio_def)
qed

lemma split_audio_chained: "chained d (split_audio d)"
proof (cases "d \<le> MAX_CHUNK_DURATION_MS")
  case True
  then show ?thesis by (simp add: split_audio_def)
next
  case False
  have "chained d (split_loop d [] 0)"
    by (rule split_loop_chained) simp_all
  with False show ?thesis by (simp add: split_audio_def)
qed

lemma split_audio_tail:
  assumes "MAX_CHUNK_DURATION_MS < d"
  shows "split_audio d \<noteq> [] \<and> snd (last (split_audio d)) \<le> d \<and>
         d - snd (last (split_audio d)) < OVERLAP_MS \<and>
         (\<forall>c\<in>set (split_audio d). snd c \<le> snd (last (split_audio d)))"
proof -
  have "0 + OVERLAP_MS \<le> d" using assms by (simp add: split_consts)
  from split_loop_tail [OF this, of "[]"] assms show ?thesis
    by (simp add: split_audio_def)
qed

lemma not_covered_after_last:
  assumes "\<forall>c\<in>set cs. snd c \<le> snd (last cs)" and "snd (last cs) \<le> t"
  shows "\<not> covered cs t"
  using assms by (fastforce simp: covered_def list_ex_iff)

text \<open>
  C6.  A 21-minute audio (1,260,000 ms) is split into exactly three chunks,
  [0, 600000), [595000, 1195000) and [1190000, 1260000).  For every duration the
  first chunk starts at 0, every chunk ends at its start plus the maximum chunk
  duration clipped to the total duration, and every later chunk starts at the end of
  its predecessor minus the overlap.
\<close>

theorem split_audio_21_minutes:
  "split_audio 1260000 = [(0, 600000), (595000, 1195000), (1190000, 1260000)] \<and>
   (\<forall>d. chained d (split_audio d) \<and> (\<exists>e rest. split_audio d = (0, e) # rest))"
proof -
  have "split_audio 1260000 = [(0, 600000), (595000, 1195000), (1190000, 1260000)]"
    by (simp add: split_audio_def split_loop.simps split_consts)
  then show ?thesis
    using split_audio_chained split_audio_first by blast
qed

text \<open>
  C7.  An audio no longer than the maximum chunk duration is returned as exactly one
  chunk, which spans the whole duration.
\<close>

theorem split_audio_short:
  "duration_ms \<le> MAX_CHUNK_DURATION_MS \<Longrightarrow> split_audio duration_ms = [(0, duration_ms)]"
  by (simp add: split_audio_def)

theorem split_audio_short_witness:
  "(300000::int) \<le> MAX_CHUNK_DURATION_MS \<and> split_audio 300000 = [(0, 300000)]"
proof -
  have h: "(300000::int) \<le> MAX_CHUNK_DURATION_MS" by (simp add: split_consts)
  from h split_audio_short [OF h] show ?thesis by simp
qed

text \<open>
  C8.  The chunks need not cover the whole audio.  A 602,000 ms audio yields the
  single chunk [0, 600000), so its last 2,000 ms lie in no chunk.  In general, for
  every audio longer than the maximum chunk duration the last chunk ends at or before
  the end of the audio, the uncovered tail after it is shorter than the overlap, and
  no chunk contains a millisecond at or after the end of the last chunk.
\<close>

theorem split_audio_uncovered_tail:
  "split_audio 602000 = [(0, 600000)] \<and>
   \<not> covered (split_audio 602000) 600000 \<and> \<not> covered (split_audio 602000) 601999 \<and>
   (\<forall>d. MAX_CHUNK_DURATION_MS < d \<longrightarrow>
      split_audio d \<noteq> [] \<and> snd (last (split_audio d)) \<le> d \<and>
      d - snd (last (split_audio d)) < OVERLAP_MS \<and>
      (\<forall>t. snd (last (split_audio d)) \<le> t \<longrightarrow> \<not> covered (split_audio d) t))"
proof -
  have ex: "split_audio 602000 = [(0, 600000)]"
    by (simp add: split_audio_def split_loop.simps split_consts)
  have "\<not> covered (split_audio 602000) 600000" "\<not> covered (split_audio 602000) 601999"
    unfolding ex by (simp_all add: covered_def)
  moreover have "\<forall>d. MAX_CHUNK_DURATION_MS < d \<longrightarrow>
      split_audio d \<noteq> [] \<and> snd (last (split_audio d)) \<le> d \<and>
      d - snd (last (split_audio d)) < OVERLAP_MS \<and>
      (\<forall>t. snd (last (split_audio d)) \<le> t \<longrightarrow> \<not> covered (split_audio d) t)"
    using split_audio_tail not_covered_after_last by blast
  ultimately show ?thesis using ex by blast
qed

theorem split_audio_uncovered_tail_witness:
  "MAX_CHUNK_DURATION_MS < 604999 \<and> split_audio 604999 = [(0, 600000)] \<and>
   604999 - snd (last (split_audio 604999)) = 4999 \<and> \<not> covered (split_audio 604999) 604998"
proof -
  have h: "MAX_CHUNK_DURATION_MS < 604999" by (simp add: split_consts)
  have ex: "split_audio 604999 = [(0, 600000)]"
    by (simp add: split_audio_def split_loop.simps split_consts)
  have "snd (last (split_audio 604999)) \<le> 604998" unfolding ex by simp
  with split_audio_uncovered_tail h have "\<not> covered (split_audio 604999) 604998"
    by blast
  with h ex show ?thesis by simp
qed

section \<open>Properties of gather\<close>

text \<open>Whatever the finishing moments, the gathered list is the list of outcomes by position.\<close>

lemma fold_store:
  "fold (\<lambda>(i, r) store. store(i \<mapsto> r)) (map (\<lambda>i. (i, f i)) js) m =
   (\<lambda>k. if k \<in> set js then Some (f k) else m k)"
  by (induction js arbitrary: m) (auto simp: fun_eq_iff)

lemma by_position_all:
  assumes "\<forall>k<length xs. m k = Some (xs ! k)"
  shows "by_position (length xs) m = xs"
proof -
  have "filter (\<lambda>k. m k \<noteq> None) [0..<length xs] = [0..<length xs]"
    using assms by (simp add: filter_id_conv)
  moreover have "map (the \<circ> m) [0..<length xs] = xs"
    using assms by (intro nth_equalityI) simp_all
  ultimately show ?thesis
    by (simp add: by_position_def List.map_filter_def)
qed

lemma gather_return_exceptions_positional [simp]:
  "gather_return_exceptions outcomes finish = outcomes"
  by (simp add: gather_return_exceptions_def arrivals_def fold_store by_position_all)

lemma collect_all_values:
  "collect (map (\<lambda>i. (i, Inr (g i))) js) m = Inr (\<lambda>k. if k \<in> set js then Some (g k) else m k)"
  by (induction js arbitrary: m) (auto simp: fun_eq_iff)

lemma arrivals_values:
  "arrivals (map Inr vals) finish =
   map (\<lambda>i. (i, Inr (vals ! i))) (sort_key finish [0..<length vals])"
  by (simp add: arrivals_def)

lemma gather_all_values: "gather (map Inr vals) finish = Inr vals"
  by (simp add: gather_def arrivals_values collect_all_values by_position_all)


lemma gather_all_values_map: "gather (map (Inr \<circ> f) xs) finish = Inr (map f xs)"
  using gather_all_values [of "map f xs" finish] by simp

section \<open>Properties of the chunked transcription\<close>

lemma map_enumerate_snd: "map (\<lambda>(i, x). f x) (enumerate n xs) = map f xs"
  by (induction xs arbitrary: n) simp_all

lemma split_audio_1260000:
  "split_audio 1260000 = [(0, 600000), (595000, 1195000), (1190000, 1260000)]"
  by (simp add: split_audio_def split_loop.simps split_consts)

text \<open>
  C9.  When every chunk of the audio is transcribed, the transcript returned by
  \<open>_transcribe_large_file\<close> is the texts of the chunks joined by a paragraph break
  in the order of the chunks: the i-th segment is the text of the i-th chunk, whatever
  the moments at which the concurrent per-chunk calls finish.
\<close>

theorem transcript_joined_in_chunk_order:
  assumes "PYDUB_AVAILABLE env" and "from_file env = Inr duration_ms"
    and "\<forall>c\<in>set (split_audio duration_ms). transcriptions_create env c = Inr (text c)"
  shows "transcribe_large_file (env\<lparr>chunk_finish := finish\<rparr>) =
         Inr (py_join paragraph_break (map text (split_audio duration_ms)))"
proof -
  let ?env = "env\<lparr>chunk_finish := finish\<rparr>"
  have "map (\<lambda>(i, chunk). transcribe_chunk ?env chunk i) (enumerate 0 (split_audio duration_ms)) =
        map (\<lambda>c. transcriptions_create env c) (split_audio duration_ms)"
    by (simp add: transcribe_chunk_def map_enumerate_snd)
  also have "\<dots> = map Inr (map text (split_audio duration_ms))"
    using assms(3) by simp
  finally show ?thesis
    using assms(1,2) by (simp add: transcribe_large_file_def gather_all_values_map)
qed

theorem transcript_joined_in_chunk_order_witness:
  "PYDUB_AVAILABLE env_three_chunks \<and> from_file env_three_chunks = Inr 1260000 \<and>
   split_audio 1260000 = [(0, 600000), (595000, 1195000), (1190000, 1260000)] \<and>
   transcriptions_create env_three_chunks (0, 600000) = Inr ''one'' \<and>
   transcriptions_create env_three_chunks (595000, 1195000) = Inr ''two'' \<and>
   transcriptions_create env_three_chunks (1190000, 1260000) = Inr ''three'' \<and>
   transcribe_large_file (env_three_chunks\<lparr>chunk_finish := (\<lambda>i. 2 - i)\<rparr>) =
     Inr (''one'' @ paragraph_break @ ''two'' @ paragraph_break @ ''three'')"
proof -
  have h1: "PYDUB_AVAILABLE env_three_chunks"
    and h2: "from_file env_three_chunks = Inr 1260000"
    and h3: "\<forall>c\<in>set (split_audio 1260000). transcriptions_create env_three_chunks c =
      Inr (if fst c = 0 then ''one'' else if fst c = 595000 then ''two'' else ''three'')"
    by (simp_all add: env_three_chunks_def)
  have each: "transcriptions_create env_three_chunks (0, 600000) = Inr ''one''"
    "transcriptions_create env_three_chunks (595000, 1195000) = Inr ''two''"
    "transcriptions_create env_three_chunks (1190000, 1260000) = Inr ''three''"
    by (simp_all add: env_three_chunks_def)
  from transcript_joined_in_chunk_order [OF h1 h2 h3, of "\<lambda>i. 2 - i"] h1 h2 each
  show ?thesis by (simp add: split_audio_1260000)
qed

section \<open>Properties of the step functions\<close>

lemma write_chapters_try_eq:
  "write_chapters_try env state =
     (case life_stage_chain env Childhood of Inl e \<Rightarrow> Inl e | Inr childhood_agent \<Rightarrow>
      case life_stage_chain env Youth of Inl e \<Rightarrow> Inl e | Inr youth_agent \<Rightarrow>
      case life_stage_chain env Middle_age of Inl e \<Rightarrow> Inl e | Inr middle_age_agent \<Rightarrow>
      case life_stage_chain env Mature of Inl e \<Rightarrow> Inl e | Inr mature_agent \<Rightarrow>
      case life_stage_chain env Elderly of Inl e \<Rightarrow> Inl e | Inr elderly_agent \<Rightarrow>
        Inr (state\<lparr>childhood_chapter := slot_value (childhood_agent (transcript state)),
                   youth_chapter := slot_value (youth_agent (transcript state)),
                   middle_age_chapter := slot_value (middle_age_agent (transcript state)),
                   mature_chapter := slot_value (mature_agent (transcript state)),
                   elderly_chapter := slot_value (elderly_agent (transcript state)),
                   current_step := ''integrate''\<rparr>))"
  by (simp add: write_chapters_try_def create_childhood_agent_def create_youth_agent_def
      create_middle_age_agent_def create_mature_agent_def create_elderly_agent_def
      branch_calls_def chapter_names_def display_names_def spread_chapters_def slot_value_def
      split: sum.splits)

lemma try_except_Inr [simp]: "try_except (Inr v) h = Inr v"
  by (simp add: try_except_def)

lemma try_except_Inl [simp]: "try_except (Inl e) h = h e"
  by (simp add: try_except_def)

lemma should_continue_error_state [simp]:
  "should_continue (error_state state e) = ''error''"
  by (simp add: should_continue_def error_state_def truthy_def)

lemma analyze_try_Inr:
  "analyze_try env state = Inr s \<Longrightarrow>
   current_step s = ''chapters'' \<and> error s = error state \<and> analysis s \<noteq> None \<and>
   final_autobiography s = final_autobiography state"
  by (auto simp: analyze_try_def split: sum.splits)

lemma write_chapters_try_Inr:
  "write_chapters_try env state = Inr s \<Longrightarrow>
   current_step s = ''integrate'' \<and> error s = error state \<and> analysis s = analysis state \<and>
   final_autobiography s = final_autobiography state"
  by (auto simp: write_chapters_try_eq split: sum.splits)

lemma integrate_try_Inr:
  "integrate_try env state = Inr s \<Longrightarrow>
   current_step s = ''complete'' \<and> error s = error state \<and> final_autobiography s \<noteq> None"
  by (auto simp: integrate_try_def Let_def split: sum.splits option.splits)

lemma graph_steps_numeral:
  "graph_steps (numeral k) env g n called state =
     (case node_function n env state of
        Inl e \<Rightarrow> (called @ [n], Inl e)
      | Inr state' \<Rightarrow>
          (case map_of (conditional_edges g n) (should_continue state') of
             None \<Rightarrow> (called @ [n], Inl (PyException (repr_str (should_continue state'))))
           | Some END \<Rightarrow> (called @ [n], Inr state')
           | Some (To n') \<Rightarrow> graph_steps (pred_numeral k) env g n' (called @ [n]) state'))"
  by (simp add: numeral_eq_Suc)

lemma edges_simps [simp]:
  "entry_point create_orchestrator = Analyze"
  "conditional_edges create_orchestrator Analyze = [(''chapters'', To Write_chapters), (''error'', END)]"
  "conditional_edges create_orchestrator Write_chapters = [(''integrate'', To Integrate), (''error'', END)]"
  "conditional_edges create_orchestrator Integrate = [(''complete'', END), (''error'', END)]"
  by (simp_all add: create_orchestrator_def)

lemma node_function_simps [simp]:
  "node_function Analyze = analyze_node"
  "node_function Write_chapters = write_chapters_node"
  "node_function Integrate = integrate_node"
  by (simp_all add: node_function_def)

lemma graph_ainvoke_pipeline:
  "graph_ainvoke env create_orchestrator (initial_state t) =
   (fst (pipeline env t), Inr (snd (pipeline env t)))"
proof -
  note defs = graph_ainvoke_def recursion_limit_def graph_steps_numeral analyze_node_def
    write_chapters_node_def integrate_node_def pipeline_def
  show ?thesis
  proof (cases "analyze_try env (initial_state t)")
    case (Inl e)
    then show ?thesis by (simp add: defs)
  next
    case s1: (Inr s1)
    have r1: "should_continue s1 = ''chapters''"
      using analyze_try_Inr [OF s1] by (simp add: should_continue_def initial_state_def truthy_def)
    show ?thesis
    proof (cases "write_chapters_try env s1")
      case (Inl e)
      with s1 r1 show ?thesis by (simp add: defs)
    next
      case s2: (Inr s2)
      have r2: "should_continue s2 = ''integrate''"
        using analyze_try_Inr [OF s1] write_chapters_try_Inr [OF s2]
        by (simp add: should_continue_def initial_state_def truthy_def)
      show ?thesis
      proof (cases "integrate_try env s2")
        case (Inl e)
        with s1 r1 s2 r2 show ?thesis by (simp add: defs)
      next
        case s3: (Inr s3)
        have r3: "should_continue s3 = ''complete''"
          using analyze_try_Inr [OF s1] write_chapters_try_Inr [OF s2] integrate_try_Inr [OF s3]
          by (simp add: should_continue_def initial_state_def truthy_def)
        from s1 r1 s2 r2 s3 r3 show ?thesis by (simp add: defs)
      qed
    qed
  qed
qed

lemma run_pipeline:
  "run_autobiography_generation env t =
     (if truthy (error (snd (pipeline env t)))
      then Inl (PyException (error_prefix @ format_opt (error (snd (pipeline env t)))))
      else Inr (final_autobiography (snd (pipeline env t))))"
  by (simp add: run_autobiography_generation_def graph_ainvoke_pipeline)

lemma node_total:
  "analyze_node env state =
     Inr (case analyze_try env state of Inl e \<Rightarrow> error_state state e | Inr s \<Rightarrow> s)"
  "write_chapters_node env state =
     Inr (case write_chapters_try env state of Inl e \<Rightarrow> error_state state e | Inr s \<Rightarrow> s)"
  "integrate_node env state =
     Inr (case integrate_try env state of Inl e \<Rightarrow> error_state state e | Inr s \<Rightarrow> s)"
  by (simp_all add: analyze_node_def write_chapters_node_def integrate_node_def
      split: sum.splits)



section \<open>Properties of the run\<close>

lemma analysis_failure_ends_run:
  assumes "analyze_try env (initial_state t) = Inl e"
  shows "graph_ainvoke env create_orchestrator (initial_state t) =
           ([Analyze], Inr (error_state (initial_state t) e))"
    and "str_exc e \<noteq> [] \<Longrightarrow>
         run_autobiography_generation env t = Inl (PyException (error_prefix @ str_exc e))"
  using assms
  by (simp_all add: graph_ainvoke_pipeline run_pipeline pipeline_def error_state_def
      truthy_def format_opt_def)

lemma pipeline_final_state:
  "final_autobiography (snd (pipeline env t)) = Some r \<Longrightarrow>
   current_step (snd (pipeline env t)) = ''complete'' \<and> error (snd (pipeline env t)) = None"
proof (cases "analyze_try env (initial_state t)")
  case (Inl e)
  then show "final_autobiography (snd (pipeline env t)) = Some r \<Longrightarrow> ?thesis"
    by (simp add: pipeline_def error_state_def initial_state_def)
next
  case s1: (Inr s1)
  note f1 = analyze_try_Inr [OF s1]
  assume r: "final_autobiography (snd (pipeline env t)) = Some r"
  show ?thesis
  proof (cases "write_chapters_try env s1")
    case (Inl e)
    with s1 f1 r show ?thesis
      by (simp add: pipeline_def error_state_def initial_state_def)
  next
    case s2: (Inr s2)
    note f2 = write_chapters_try_Inr [OF s2]
    show ?thesis
    proof (cases "integrate_try env s2")
      case (Inl e)
      with s1 f1 s2 f2 r show ?thesis
        by (simp add: pipeline_def error_state_def initial_state_def)
    next
      case s3: (Inr s3)
      note f3 = integrate_try_Inr [OF s3]
      from s1 f1 s2 f2 s3 f3 show ?thesis
        by (simp add: pipeline_def initial_state_def)
    qed
  qed
qed

lemma pipeline_error_no_result:
  "error (snd (pipeline env t)) \<noteq> None \<Longrightarrow> final_autobiography (snd (pipeline env t)) = None"
  using pipeline_final_state [of env t] by (cases "final_autobiography (snd (pipeline env t))") auto

lemma run_result_from_complete_state:
  assumes "run_autobiography_generation env t = Inr (Some r)"
  shows "\<exists>s. snd (graph_ainvoke env create_orchestrator (initial_state t)) = Inr s \<and>
             final_autobiography s = Some r \<and> current_step s = ''complete'' \<and> error s = None"
proof -
  from assms have "final_autobiography (snd (pipeline env t)) = Some r"
    by (simp add: run_pipeline split: if_splits)
  with pipeline_final_state [OF this] show ?thesis
    by (simp add: graph_ainvoke_pipeline)
qed

lemma run_raises_on_nonempty_error:
  assumes "snd (graph_ainvoke env create_orchestrator (initial_state t)) = Inr s"
    and "error s = Some msg" and "msg \<noteq> []"
  shows "run_autobiography_generation env t = Inl (PyException (error_prefix @ msg)) \<and>
         final_autobiography s = None"
  using assms pipeline_error_no_result [of env t]
  by (auto simp: graph_ainvoke_pipeline run_pipeline truthy_def format_opt_def)

text \<open>
  C3.  When the analysis fails, the graph calls no node after \<open>analyze\<close> and ends in
  the error state (\<open>analysis_failure_ends_run\<close>), and the run raises an exception
  carrying the text of the failure when that text is not empty.  When the analysis
  call raises an exception whose text is empty, the fan-out is still never called and
  the state still ends as an error state, but line 372 takes the empty \<open>error\<close> for
  no error: the run raises nothing and returns \<open>None\<close>.
\<close>

theorem silent_analysis_failure_not_reported:
  "analyze_try env_silent_analysis_failure (initial_state ''t'') = Inl (PyException []) \<and>
   graph_ainvoke env_silent_analysis_failure create_orchestrator (initial_state ''t'') =
     ([Analyze], Inr ((initial_state ''t'')\<lparr>error := Some [], current_step := ''error''\<rparr>)) \<and>
   run_autobiography_generation env_silent_analysis_failure ''t'' = Inr None"
proof -
  have a: "analyze_try env_silent_analysis_failure (initial_state ''t'') = Inl (PyException [])"
    by (simp add: analyze_try_def create_analyzer_chain_def env_silent_analysis_failure_def)
  have p: "pipeline env_silent_analysis_failure ''t'' =
      ([Analyze], (initial_state ''t'')\<lparr>error := Some [], current_step := ''error''\<rparr>)"
    by (simp add: pipeline_def a error_state_def)
  have "run_autobiography_generation env_silent_analysis_failure ''t'' = Inr None"
    by (simp add: run_pipeline p truthy_def initial_state_def)
  with a p show ?thesis
    by (simp add: graph_ainvoke_pipeline)
qed

text \<open>
  C4.  A result other than \<open>None\<close> is returned only from a final state whose step
  is \<open>complete\<close> and whose \<open>error\<close> is \<open>None\<close>
  (\<open>run_result_from_complete_state\<close>), and a final state with a non-empty
  \<open>error\<close> makes the run raise while \<open>final_autobiography\<close> is still \<open>None\<close>
  (\<open>run_raises_on_nonempty_error\<close>).  When the integration call raises an exception
  whose text is empty, the final state has \<open>error\<close> set (to the empty text) and its
  step is \<open>error\<close>, yet the run does not raise: it returns \<open>None\<close>.
\<close>

theorem silent_integration_failure_returns_none:
  "(\<exists>s. snd (graph_ainvoke env_silent_integration_failure create_orchestrator
            (initial_state ''t'')) = Inr s \<and>
        error s = Some [] \<and> current_step s = ''error'' \<and> final_autobiography s = None) \<and>
   run_autobiography_generation env_silent_integration_failure ''t'' = Inr None"
proof -
  have p: "snd (pipeline env_silent_integration_failure ''t'') =
      (initial_state ''t'')\<lparr>analysis := Some analysis_ok, error := Some [],
         current_step := ''error''\<rparr>"
    by (simp add: pipeline_def analyze_try_def write_chapters_try_eq integrate_try_def
        create_analyzer_chain_def create_integrator_chain_def slot_value_def error_state_def
        env_silent_integration_failure_def initial_state_def Let_def)
  have g: "snd (graph_ainvoke env_silent_integration_failure create_orchestrator
        (initial_state ''t'')) =
      Inr ((initial_state ''t'')\<lparr>analysis := Some analysis_ok, error := Some [],
         current_step := ''error''\<rparr>)"
    by (simp add: graph_ainvoke_pipeline p)
  have r: "run_autobiography_generation env_silent_integration_failure ''t'' = Inr None"
    by (simp add: run_pipeline p truthy_def initial_state_def)
  show ?thesis
    unfolding g r by (simp add: initial_state_def)
qed

section \<open>Properties of the fan-out\<close>

lemma analyze_try_finish [simp]:
  "analyze_try (env\<lparr>branch_finish := finish\<rparr>) state = analyze_try env state"
  by (simp add: analyze_try_def create_analyzer_chain_def)

lemma write_chapters_try_unbuilt:
  assumes "life_stage_chain env p = Inl e"
  shows "\<exists>e' q. life_stage_chain env q = Inl e' \<and>
           (\<forall>state. write_chapters_try env state = Inl e')"
proof (cases "life_stage_chain env Childhood")
  case (Inl e1)
  then show ?thesis by (auto simp: write_chapters_try_eq)
next
  case c: (Inr c)
  show ?thesis
  proof (cases "life_stage_chain env Youth")
    case (Inl e2)
    with c show ?thesis by (auto simp: write_chapters_try_eq)
  next
    case y: (Inr y)
    show ?thesis
    proof (cases "life_stage_chain env Middle_age")
      case (Inl e3)
      with c y show ?thesis by (auto simp: write_chapters_try_eq)
    next
      case m: (Inr m)
      show ?thesis
      proof (cases "life_stage_chain env Mature")
        case (Inl e4)
        with c y m show ?thesis by (auto simp: write_chapters_try_eq)
      next
        case a: (Inr a)
        show ?thesis
        proof (cases "life_stage_chain env Elderly")
          case (Inl e5)
          with c y m a show ?thesis by (auto simp: write_chapters_try_eq)
        next
          case (Inr l)
          with c y m a assms show ?thesis by (cases p) simp_all
        qed
      qed
    qed
  qed
qed

lemma write_chapters_try_finish [simp]:
  "write_chapters_try (env\<lparr>branch_finish := finish\<rparr>) state = write_chapters_try env state"
  by (simp add: write_chapters_try_eq cong: sum.case_cong)

text \<open>
  C2 (as amended).  Once the five life-stage chains have been built, the fan-out never
  fails as a whole: for every transcript, every outcome of the five branch calls and
  every assignment of finishing moments, the step returns the input state in which each
  slot holds the result of the branch in its position, or \<open>None\<close> where that branch
  raised, and \<open>current_step\<close> is \<open>integrate\<close>; the other branches' results are
  stored unchanged.  With no error in the input state the router then leads to the
  integration node, and a run whose analysis succeeded calls all three nodes, even when
  all five branches fail.  If building any one of the chains raises, the step returns
  the input state with \<open>error\<close> set to the text of the exception of a chain that
  could not be built and \<open>current_step\<close> set to \<open>error\<close>, and a run whose analysis
  succeeded ends in that state after the fan-out node, without calling the integration.
\<close>

theorem fan_out_isolates_branch_failures:
  "((\<forall>p. life_stage_chain env p = Inr (agent p)) \<longrightarrow>
      (\<exists>s. write_chapters_node (env\<lparr>branch_finish := finish\<rparr>) state = Inr s \<and>
         s = state\<lparr>childhood_chapter := slot_value (agent Childhood (transcript state)),
                   youth_chapter := slot_value (agent Youth (transcript state)),
                   middle_age_chapter := slot_value (agent Middle_age (transcript state)),
                   mature_chapter := slot_value (agent Mature (transcript state)),
                   elderly_chapter := slot_value (agent Elderly (transcript state)),
                   current_step := ''integrate''\<rparr> \<and>
         (\<not> truthy (error state) \<longrightarrow>
            map_of (conditional_edges create_orchestrator Write_chapters) (should_continue s) =
              Some (To Integrate)) \<and>
         (\<forall>s1. analyze_try env (initial_state t) = Inr s1 \<longrightarrow>
            fst (graph_ainvoke (env\<lparr>branch_finish := finish\<rparr>) create_orchestrator
                   (initial_state t)) =
              [Analyze, Write_chapters, Integrate]))) \<and>
   (life_stage_chain env p = Inl e \<longrightarrow>
      (\<exists>e' q. life_stage_chain env q = Inl e' \<and>
         write_chapters_node (env\<lparr>branch_finish := finish\<rparr>) state =
           Inr (state\<lparr>error := Some (str_exc e'), current_step := ''error''\<rparr>) \<and>
         (\<forall>s1. analyze_try env (initial_state t) = Inr s1 \<longrightarrow>
            graph_ainvoke (env\<lparr>branch_finish := finish\<rparr>) create_orchestrator
              (initial_state t) =
              ([Analyze, Write_chapters],
               Inr (s1\<lparr>error := Some (str_exc e'), current_step := ''error''\<rparr>)))))"
proof (intro conjI impI)
  let ?env = "env\<lparr>branch_finish := finish\<rparr>"
  assume built: "\<forall>p. life_stage_chain env p = Inr (agent p)"
  have w: "\<And>st. write_chapters_try env st =
     Inr (st\<lparr>childhood_chapter := slot_value (agent Childhood (transcript st)),
               youth_chapter := slot_value (agent Youth (transcript st)),
               middle_age_chapter := slot_value (agent Middle_age (transcript st)),
               mature_chapter := slot_value (agent Mature (transcript st)),
               elderly_chapter := slot_value (agent Elderly (transcript st)),
               current_step := ''integrate''\<rparr>)"
    using built by (simp add: write_chapters_try_eq)
  have "\<forall>s1. analyze_try env (initial_state t) = Inr s1 \<longrightarrow>
        fst (graph_ainvoke ?env create_orchestrator (initial_state t)) =
          [Analyze, Write_chapters, Integrate]"
    by (auto simp: graph_ainvoke_pipeline pipeline_def w split: sum.splits)
  then show "\<exists>s. write_chapters_node ?env state = Inr s \<and>
         s = state\<lparr>childhood_chapter := slot_value (agent Childhood (transcript state)),
                   youth_chapter := slot_value (agent Youth (transcript state)),
                   middle_age_chapter := slot_value (agent Middle_age (transcript state)),
                   mature_chapter := slot_value (agent Mature (transcript state)),
                   elderly_chapter := slot_value (agent Elderly (transcript state)),
                   current_step := ''integrate''\<rparr> \<and>
         (\<not> truthy (error state) \<longrightarrow>
            map_of (conditional_edges create_orchestrator Write_chapters) (should_continue s) =
              Some (To Integrate)) \<and>
         (\<forall>s1. analyze_try env (initial_state t) = Inr s1 \<longrightarrow>
            fst (graph_ainvoke ?env create_orchestrator (initial_state t)) =
              [Analyze, Write_chapters, Integrate])"
    by (simp add: node_total w should_continue_def)
next
  let ?env = "env\<lparr>branch_finish := finish\<rparr>"
  assume "life_stage_chain env p = Inl e"
  from write_chapters_try_unbuilt [OF this] obtain e' q where
    q: "life_stage_chain env q = Inl e'" and
    w: "\<And>st. write_chapters_try env st = Inl e'"
    by blast
  have node: "write_chapters_node ?env state =
      Inr (state\<lparr>error := Some (str_exc e'), current_step := ''error''\<rparr>)"
    by (simp add: node_total w error_state_def)
  have run: "\<forall>s1. analyze_try env (initial_state t) = Inr s1 \<longrightarrow>
      graph_ainvoke ?env create_orchestrator (initial_state t) =
        ([Analyze, Write_chapters],
         Inr (s1\<lparr>error := Some (str_exc e'), current_step := ''error''\<rparr>))"
    by (simp add: graph_ainvoke_pipeline pipeline_def w error_state_def)
  from q node run
  show "\<exists>e' q. life_stage_chain env q = Inl e' \<and>
         write_chapters_node ?env state =
           Inr (state\<lparr>error := Some (str_exc e'), current_step := ''error''\<rparr>) \<and>
         (\<forall>s1. analyze_try env (initial_state t) = Inr s1 \<longrightarrow>
            graph_ainvoke ?env create_orchestrator (initial_state t) =
              ([Analyze, Write_chapters],
               Inr (s1\<lparr>error := Some (str_exc e'), current_step := ''error''\<rparr>)))"
    by blast
qed

theorem fan_out_isolates_branch_failures_witness:
  "(\<forall>p. life_stage_chain env_one_failure p =
      Inr (if p = Youth then (\<lambda>t. Inl (PyException ''timeout'')) else (\<lambda>t. Inr section_ok))) \<and>
   \<not> truthy (error analysed_state) \<and>
   analyze_try env_one_failure (initial_state ''t'') = Inr analysed_state \<and>
   write_chapters_node (env_one_failure\<lparr>branch_finish := (\<lambda>i. 4 - i)\<rparr>) analysed_state =
     Inr (analysed_state\<lparr>childhood_chapter := Some section_ok, youth_chapter := None,
            middle_age_chapter := Some section_ok, mature_chapter := Some section_ok,
            elderly_chapter := Some section_ok, current_step := ''integrate''\<rparr>) \<and>
   fst (graph_ainvoke (env_one_failure\<lparr>branch_finish := (\<lambda>i. 4 - i)\<rparr>) create_orchestrator
          (initial_state ''t'')) = [Analyze, Write_chapters, Integrate] \<and>
   life_stage_chain env_elderly_unbuilt Elderly = Inl (PyException ''api key'') \<and>
   analyze_try env_elderly_unbuilt (initial_state ''t'') = Inr analysed_state \<and>
   write_chapters_node (env_elderly_unbuilt\<lparr>branch_finish := (\<lambda>i. 4 - i)\<rparr>) analysed_state =
     Inr (analysed_state\<lparr>error := Some ''api key'', current_step := ''error''\<rparr>) \<and>
   graph_ainvoke (env_elderly_unbuilt\<lparr>branch_finish := (\<lambda>i. 4 - i)\<rparr>) create_orchestrator
     (initial_state ''t'') =
     ([Analyze, Write_chapters],
      Inr (analysed_state\<lparr>error := Some ''api key'', current_step := ''error''\<rparr>))"
proof -
  let ?agent = "\<lambda>p. if p = Youth then (\<lambda>t. Inl (PyException ''timeout''))
                    else (\<lambda>t. Inr section_ok :: py_exception + LifeStorySection)"
  have h1: "\<forall>p. life_stage_chain env_one_failure p = Inr (?agent p)"
    by (simp add: env_one_failure_def)
  have h2: "\<not> truthy (error analysed_state)"
    by (simp add: analysed_state_def initial_state_def truthy_def)
  have h3: "analyze_try env_one_failure (initial_state ''t'') = Inr analysed_state"
    by (simp add: analyze_try_def create_analyzer_chain_def env_one_failure_def
        analysed_state_def)
  have g1: "life_stage_chain env_elderly_unbuilt Elderly = Inl (PyException ''api key'')"
    by (simp add: env_elderly_unbuilt_def)
  have g2: "analyze_try env_elderly_unbuilt (initial_state ''t'') = Inr analysed_state"
    by (simp add: analyze_try_def create_analyzer_chain_def env_elderly_unbuilt_def
        analysed_state_def)
  have only: "\<And>q e'. life_stage_chain env_elderly_unbuilt q = Inl e' \<Longrightarrow>
      e' = PyException ''api key''"
    by (simp add: env_elderly_unbuilt_def split: if_splits)
  note t1 = fan_out_isolates_branch_failures
    [of env_one_failure ?agent "\<lambda>i. 4 - i" analysed_state "''t''"]
  note t2 = fan_out_isolates_branch_failures
    [of env_elderly_unbuilt _ "\<lambda>i. 4 - i" analysed_state "''t''" Elderly "PyException ''api key''"]
  note built = mp [OF conjunct1 [OF t1] h1]
  note unbuilt = mp [OF conjunct2 [OF t2] g1]
  from built h2 h3 have
    b1: "write_chapters_node (env_one_failure\<lparr>branch_finish := (\<lambda>i. 4 - i)\<rparr>) analysed_state =
     Inr (analysed_state\<lparr>childhood_chapter := Some section_ok, youth_chapter := None,
            middle_age_chapter := Some section_ok, mature_chapter := Some section_ok,
            elderly_chapter := Some section_ok, current_step := ''integrate''\<rparr>)" and
    b2: "fst (graph_ainvoke (env_one_failure\<lparr>branch_finish := (\<lambda>i. 4 - i)\<rparr>) create_orchestrator
          (initial_state ''t'')) = [Analyze, Write_chapters, Integrate]"
    by (auto simp: slot_value_def analysed_state_def)
  from unbuilt obtain e' q where
    q: "life_stage_chain env_elderly_unbuilt q = Inl e'" and
    u1: "write_chapters_node (env_elderly_unbuilt\<lparr>branch_finish := (\<lambda>i. 4 - i)\<rparr>) analysed_state =
       Inr (analysed_state\<lparr>error := Some (str_exc e'), current_step := ''error''\<rparr>)" and
    u2: "\<forall>s1. analyze_try env_elderly_unbuilt (initial_state ''t'') = Inr s1 \<longrightarrow>
       graph_ainvoke (env_elderly_unbuilt\<lparr>branch_finish := (\<lambda>i. 4 - i)\<rparr>) create_orchestrator
         (initial_state ''t'') =
         ([Analyze, Write_chapters],
          Inr (s1\<lparr>error := Some (str_exc e'), current_step := ''error''\<rparr>))"
    by blast
  from only [OF q] have e': "str_exc e' = ''api key''" by simp
  from u2 g2 have u3: "graph_ainvoke (env_elderly_unbuilt\<lparr>branch_finish := (\<lambda>i. 4 - i)\<rparr>)
      create_orchestrator (initial_state ''t'') =
      ([Analyze, Write_chapters],
       Inr (analysed_state\<lparr>error := Some (str_exc e'), current_step := ''error''\<rparr>))"
    by blast
  from h1 h2 h3 b1 b2 g1 g2 u1 u3 show ?thesis
    unfolding e' by blast
qed

text \<open>
  C2 as stated fails: when the life-stage chains cannot be built, the step does not
  advance.  It returns the error state, the graph ends after the fan-out node without
  calling the integration, and the run raises.
\<close>

theorem fan_out_fails_when_chains_cannot_be_built:
  "write_chapters_node env_no_agents analysed_state =
     Inr (analysed_state\<lparr>error := Some ''api key'', current_step := ''error''\<rparr>) \<and>
   graph_ainvoke env_no_agents create_orchestrator (initial_state ''t'') =
     ([Analyze, Write_chapters],
      Inr (analysed_state\<lparr>error := Some ''api key'', current_step := ''error''\<rparr>)) \<and>
   run_autobiography_generation env_no_agents ''t'' =
     Inl (PyException (error_prefix @ ''api key''))"
proof -
  have a: "analyze_try env_no_agents (initial_state ''t'') = Inr analysed_state"
    by (simp add: analyze_try_def create_analyzer_chain_def env_no_agents_def analysed_state_def)
  have w: "write_chapters_try env_no_agents analysed_state = Inl (PyException ''api key'')"
    by (simp add: write_chapters_try_eq env_no_agents_def)
  have p: "pipeline env_no_agents ''t'' =
     ([Analyze, Write_chapters], analysed_state\<lparr>error := Some ''api key'', current_step := ''error''\<rparr>)"
    by (simp add: pipeline_def a w error_state_def)
  have r: "run_autobiography_generation env_no_agents ''t'' =
     Inl (PyException (error_prefix @ ''api key''))"
    by (simp add: run_pipeline p truthy_def format_opt_def)
  show ?thesis
    by (simp add: node_total w error_state_def graph_ainvoke_pipeline p r)
qed

section \<open>Properties of the integration request\<close>

lemma chapter_entry_header: "prefix (entry_header p a) (chapter_entry p a slot)"
  by (simp add: chapter_entry_def split: option.splits)

lemma chapter_entry_no_content:
  "no_content slot \<Longrightarrow> chapter_entry p a slot = entry_header p a @ text_insufficient"
  by (simp add: chapter_entry_def no_content_def split: option.splits)

lemma chapter_entry_with_content:
  "has_content c \<Longrightarrow> chapter_entry p a (Some c) =
     entry_header p a @ label_title @ title c @ label_content @ content c @
     label_key_events @ py_join comma (key_events c) @
     label_emotions @ py_join comma (emotions c) @
     label_lessons @ str_or (lessons_learned c) text_none @ [CHR 0x0A]"
  by (simp add: chapter_entry_def)

lemma chapters_info_zip:
  "chapters_info state =
     map (\<lambda>((p, a), slot). chapter_entry p a slot) (zip canonical_periods (period_slots state))"
  by (simp add: chapters_info_def chapter_data_def canonical_periods_def period_slots_def)

lemma chapters_info_nth:
  "i < 5 \<Longrightarrow> chapters_info state ! i =
     chapter_entry (fst (canonical_periods ! i)) (snd (canonical_periods ! i))
       (period_slots state ! i)"
proof -
  assume "i < 5"
  then consider "i = 0" | "i = 1" | "i = 2" | "i = 3" | "i = 4"
    by linarith
  then show ?thesis
    by cases (simp_all add: chapters_info_def chapter_data_def canonical_periods_def
        period_slots_def)
qed

lemma canonical_headers_distinct: "distinct (map canonical_header [0..<5])"
  by (simp add: upt_rec canonical_header_def canonical_periods_def entry_header_def
      period_childhood_def period_youth_def period_middle_age_def period_mature_def
      period_elderly_def)

lemma integrate_try_input:
  "analysis state = Some a \<Longrightarrow> create_integrator_chain env = Inr integrator \<Longrightarrow>
   integrate_try env state =
     (case integrator (integration_input a (chapters_info state)) of
        Inl e \<Rightarrow> Inl e
      | Inr result \<Rightarrow>
          Inr (state\<lparr>final_autobiography := Some result, current_step := ''complete''\<rparr>))"
  by (simp add: integrate_try_def Let_def)

text \<open>
  C1.  The text handed to the integrator always holds exactly five period entries in
  the canonical order childhood, youth, middle age, mature age, old age, whatever the
  slots of the state hold: the entry in position i opens with the header of period i
  (the five headers are pairwise different); a slot that is null or whose section has
  \<open>has_content\<close> false contributes the header followed by the
  insufficient-information sentence; a slot whose section has content contributes the
  header followed by the title, content, key events, emotions and lessons of that very
  section.  The integration request is the author data of the analysis, the five
  entries in that order, and the closing instruction, and it is the text the
  integrator is invoked on.
\<close>

theorem integration_input_has_five_slots:
  "length (chapters_info state) = 5 \<and>
   (\<forall>i<5. prefix (canonical_header i) (chapters_info state ! i) \<and>
      (no_content (period_slots state ! i) \<longrightarrow>
         chapters_info state ! i = canonical_header i @ text_insufficient) \<and>
      (\<forall>c. period_slots state ! i = Some c \<longrightarrow> has_content c \<longrightarrow>
         chapters_info state ! i =
           canonical_header i @ label_title @ title c @ label_content @ content c @
           label_key_events @ py_join comma (key_events c) @
           label_emotions @ py_join comma (emotions c) @
           label_lessons @ str_or (lessons_learned c) text_none @ [CHR 0x0A])) \<and>
   distinct (map canonical_header [0..<5]) \<and>
   integration_input a (chapters_info state) =
     input_intro @ author_name a @
     input_birth_year @ int_or (birth_year a) text_unknown @
     input_current_age @ int_or (current_age a) text_unknown @
     input_summary @ summary a @
     input_periods @ py_join comma (detected_periods a) @
     input_themes @ py_join comma (main_themes a) @
     input_rule_open @ concat (chapters_info state) @ input_outro \<and>
   (analysis state = Some a \<longrightarrow> create_integrator_chain env = Inr integrator \<longrightarrow>
      integrate_try env state =
        (case integrator (integration_input a (chapters_info state)) of
           Inl e \<Rightarrow> Inl e
         | Inr result \<Rightarrow>
             Inr (state\<lparr>final_autobiography := Some result, current_step := ''complete''\<rparr>)))"
proof -
  have "length (chapters_info state) = 5"
    by (simp add: chapters_info_def chapter_data_def)
  moreover have "\<forall>i<5. prefix (canonical_header i) (chapters_info state ! i) \<and>
      (no_content (period_slots state ! i) \<longrightarrow>
         chapters_info state ! i = canonical_header i @ text_insufficient) \<and>
      (\<forall>c. period_slots state ! i = Some c \<longrightarrow> has_content c \<longrightarrow>
         chapters_info state ! i =
           canonical_header i @ label_title @ title c @ label_content @ content c @
           label_key_events @ py_join comma (key_events c) @
           label_emotions @ py_join comma (emotions c) @
           label_lessons @ str_or (lessons_learned c) text_none @ [CHR 0x0A])"
    by (simp add: chapters_info_nth canonical_header_def chapter_entry_header
        chapter_entry_no_content chapter_entry_with_content)
  moreover have "integration_input a (chapters_info state) =
     input_intro @ author_name a @
     input_birth_year @ int_or (birth_year a) text_unknown @
     input_current_age @ int_or (current_age a) text_unknown @
     input_summary @ summary a @
     input_periods @ py_join comma (detected_periods a) @
     input_themes @ py_join comma (main_themes a) @
     input_rule_open @ concat (chapters_info state) @ input_outro"
    by (simp add: integration_input_def)
  ultimately show ?thesis
    using canonical_headers_distinct integrate_try_input
    by blast
qed

theorem integration_input_has_five_slots_witness:
  "(0::nat) < 5 \<and> period_slots mixed_state ! 0 = Some section_ok \<and> has_content section_ok \<and>
   chapters_info mixed_state ! 0 =
     entry_header period_childhood ages_childhood @ label_title @ ''Home'' @
     label_content @ ''Born by the sea.'' @ label_key_events @ ''birth, school'' @
     label_emotions @ ''joy'' @ label_lessons @ text_none @ [CHR 0x0A] \<and>
   (1::nat) < 5 \<and> no_content (period_slots mixed_state ! 1) \<and>
   chapters_info mixed_state ! 1 = entry_header period_youth ages_youth @ text_insufficient \<and>
   (2::nat) < 5 \<and> no_content (period_slots mixed_state ! 2) \<and>
   chapters_info mixed_state ! 2 =
     entry_header period_middle_age ages_middle_age @ text_insufficient \<and>
   analysis mixed_state = Some analysis_ok \<and>
   create_integrator_chain env_all_branches_fail = Inr (\<lambda>i. Inr book_ok) \<and>
   integrate_try env_all_branches_fail mixed_state =
     Inr (mixed_state\<lparr>final_autobiography := Some book_ok, current_step := ''complete''\<rparr>)"
proof -
  have s0: "period_slots mixed_state ! 0 = Some section_ok"
    by (simp add: period_slots_def mixed_state_def)
  have c0: "has_content section_ok"
    by (simp add: section_ok_def)
  have n1: "no_content (period_slots mixed_state ! 1)"
    and n2: "no_content (period_slots mixed_state ! 2)"
    by (simp_all add: no_content_def period_slots_def mixed_state_def initial_state_def
        section_empty_def)
  have a: "analysis mixed_state = Some analysis_ok"
    by (simp add: mixed_state_def)
  have c: "create_integrator_chain env_all_branches_fail = Inr (\<lambda>i. Inr book_ok)"
    by (simp add: create_integrator_chain_def env_all_branches_fail_def)
  have h: "canonical_header 0 = entry_header period_childhood ages_childhood"
    "canonical_header 1 = entry_header period_youth ages_youth"
    "canonical_header 2 = entry_header period_middle_age ages_middle_age"
    by (simp_all add: canonical_header_def canonical_periods_def)
  have fields: "title section_ok = ''Home''" "content section_ok = ''Born by the sea.''"
    "py_join comma (key_events section_ok) = ''birth, school''"
    "py_join comma (emotions section_ok) = ''joy''"
    "str_or (lessons_learned section_ok) text_none = text_none"
    by (simp_all add: section_ok_def comma_def str_or_def)
  note t = integration_input_has_five_slots
    [of mixed_state analysis_ok env_all_branches_fail "\<lambda>i. Inr book_ok"]
  from t have entries: "\<forall>i<5. prefix (canonical_header i) (chapters_info mixed_state ! i) \<and>
      (no_content (period_slots mixed_state ! i) \<longrightarrow>
         chapters_info mixed_state ! i = canonical_header i @ text_insufficient) \<and>
      (\<forall>c. period_slots mixed_state ! i = Some c \<longrightarrow> has_content c \<longrightarrow>
         chapters_info mixed_state ! i =
           canonical_header i @ label_title @ title c @ label_content @ content c @
           label_key_events @ py_join comma (key_events c) @
           label_emotions @ py_join comma (emotions c) @
           label_lessons @ str_or (lessons_learned c) text_none @ [CHR 0x0A])"
    by blast
  from t a c have i: "integrate_try env_all_branches_fail mixed_state =
      Inr (mixed_state\<lparr>final_autobiography := Some book_ok, current_step := ''complete''\<rparr>)"
    by simp
  have e0: "chapters_info mixed_state ! 0 =
     entry_header period_childhood ages_childhood @ label_title @ ''Home'' @
     label_content @ ''Born by the sea.'' @ label_key_events @ ''birth, school'' @
     label_emotions @ ''joy'' @ label_lessons @ text_none @ [CHR 0x0A]"
    using entries [rule_format, of 0] s0 c0 h(1) fields by simp
  have e1: "chapters_info mixed_state ! 1 = entry_header period_youth ages_youth @ text_insufficient"
    using entries [rule_format, of 1] n1 h(2) by simp
  have e2: "chapters_info mixed_state ! 2 =
     entry_header period_middle_age ages_middle_age @ text_insufficient"
    using entries [rule_format, of 2] n2 h(3) by simp
  from s0 c0 e0 n1 e1 n2 e2 a c i show ?thesis by simp
qed

section \<open>A failed branch and a period without content\<close>



lemma analyze_try_chains [simp]:
  "analyze_try (env\<lparr>life_stage_chain := c\<rparr>) state = analyze_try env state"
  by (simp add: analyze_try_def create_analyzer_chain_def)






end
